theory Spec2Isabelle
  imports Main "HOL-Library.Word"
begin

section \<open>Data model\<close>

text \<open>
  The tree of \<^verbatim>\<open>pub.go\<close> and \<^verbatim>\<open>store.go\<close>. Keys and values are Go \<^verbatim>\<open>interface{}\<close>
  values: keys are of an arbitrary type \<open>'k\<close>, a stored value is \<open>'v option\<close> with
  \<open>None\<close> for the nil interface. \<^verbatim>\<open>uint\<close> is taken at 64 bits, \<^verbatim>\<open>uint64\<close> and
  \<^verbatim>\<open>uint8\<close> are words, so that \<open>+\<close>, \<open>-\<close> and \<open>*\<close> wrap as in Go. The field \<^verbatim>\<open>size\<close> of the
  tree is \<open>size_m\<close> here. The debug flag, the node cache, the marshal function and the
  flag \<^verbatim>\<open>unmarshalerUsesRegisteredTypes\<close> are not read by any function modelled here
  and have no field.
\<close>

type_synonym bytes = string
type_synonym uint = "64 word"
type_synonym uint64 = "64 word"
type_synonym uint8 = "8 word"

text \<open>
  Errors are values. Each \<^verbatim>\<open>fmt.Errorf\<close> of the source is a constructor; the
  formatted key or value of a message is left out, the wrapped cause (\<^verbatim>\<open>%w\<close>) is
  kept. \<open>External\<close> is an error raised by a collaborator (the blob store, the
  codec, the order or layer function).
\<close>

datatype error =
    KeyNotPresent
  | ValueNotPresent
  | NoPersistence
  | StoringEmptyNode
  | MismatchedKeysValues string
  | FailedLoading string error
  | FailedUnmarshaling string error
  | CannotUnmarshalKey nat string error
  | CannotUnmarshalValue nat string error
  | Wrap string error
  | External string

text \<open>
  A call returns a value, returns an error, or panics (an explicit \<^verbatim>\<open>panic\<close>, an
  index out of range, a nil dereference).
\<close>

datatype 'a result = Ok 'a | Err error | Panic string

fun bindR :: "'a result \<Rightarrow> ('a \<Rightarrow> 'b result) \<Rightarrow> 'b result" where
  "bindR (Ok x) f = f x"
| "bindR (Err e) f = Err e"
| "bindR (Panic s) f = Panic s"

text \<open>\<^verbatim>\<open>fmt.Errorf("<prefix>: %w", err)\<close> on the error branch of a call.\<close>

fun wrapErr :: "string \<Rightarrow> 'a result \<Rightarrow> 'a result" where
  "wrapErr p (Err e) = Err (Wrap p e)"
| "wrapErr p (Ok x) = Ok x"
| "wrapErr p (Panic s) = Panic s"

text \<open>An index expression \<^verbatim>\<open>xs[i]\<close>: out of range is a run-time panic.\<close>

definition index :: "'a list \<Rightarrow> nat \<Rightarrow> 'a result" where
  "index xs i = (if i < length xs then Ok (xs ! i) else Panic ''index out of range'')"

text \<open>
  A link is nil, a content hash, or an in-memory node; a node holds its keys, its
  values and its links. The two source files do not agree on the Go type of a link
  (\<^verbatim>\<open>pub.go\<close> makes the links of a node as \<^verbatim>\<open>[]interface{}\<close> and assigns the string of
  \<^verbatim>\<open>flush\<close> to the root, \<^verbatim>\<open>store.go\<close> declares the interface \<^verbatim>\<open>link\<close> with the method
  \<^verbatim>\<open>Load\<close>); the model has the one type of the three cases, and a string assigned to
  a link is a content hash.
\<close>

datatype ('k, 'v) mastNode =
  MastNode (Key: "'k list") (Value: "'v option list") (Link: "('k, 'v) link list")
and ('k, 'v) link =
    nil
  | contentHash string
  | inline "('k, 'v) mastNode"

text \<open>\<^verbatim>\<open>stringNodeT\<close>: the serialized node. A nil \<^verbatim>\<open>Link\<close> slice (the field was omitted) is \<open>None\<close>.\<close>

record stringNodeT =
  stringNode_Key :: "bytes list"
  stringNode_Value :: "bytes list"
  stringNode_Link :: "string list option"

text \<open>
  \<^verbatim>\<open>m.unmarshal\<close> is one Go function used at three target types: the serialized
  node, a key, a value.
\<close>

record ('k, 'v) unmarshalT =
  unmarshalNode :: "bytes \<Rightarrow> stringNodeT result"
  unmarshalKey :: "bytes \<Rightarrow> 'k result"
  unmarshalValue :: "bytes \<Rightarrow> 'v result"

text \<open>\<^verbatim>\<open>Persist\<close>, as far as the tree reads it: \<^verbatim>\<open>Load\<close>.\<close>

type_synonym persistT = "string \<Rightarrow> bytes result"

record ('k, 'v) mast =
  root :: "('k, 'v) link"
  zeroKey :: "'k option"
  zeroValue :: "'v option"
  unmarshal :: "('k, 'v) unmarshalT"
  keyOrder :: "'k \<Rightarrow> 'k \<Rightarrow> int result"
  keyLayer :: "'k \<Rightarrow> uint \<Rightarrow> uint8 result"
  branchFactor :: uint
  size_m :: uint64
  height :: uint8
  growAfterSize :: uint64
  shrinkBelowSize :: uint64
  persist :: "persistT option"

record Root =
  Root_Link :: "string option"
  Root_Size :: uint64
  Root_Height :: uint8
  Root_BranchFactor :: uint

record ('k, 'v) RemoteConfig =
  KeysLike :: "'k option"
  ValuesLike :: "'v option"
  StoreImmutablePartsWith :: "persistT option"
  Unmarshal :: "('k, 'v) unmarshalT option"

section \<open>Loading nodes (store.go)\<close>

text \<open>
  One round of the loop over the serialized keys (lines 54 to 78). The slots of the
  freshly made \<^verbatim>\<open>Key\<close> and \<^verbatim>\<open>Value\<close> slices are assigned in index order; the model
  appends. \<^verbatim>\<open>reflect.New\<close> of the type of a nil prototype panics. Without a value
  prototype the value blob is not decoded and the stored value is nil.
\<close>

definition decodeEntry ::
  "('k, 'v) mast \<Rightarrow> string \<Rightarrow> stringNodeT \<Rightarrow> nat \<Rightarrow> 'k list \<times> 'v option list
    \<Rightarrow> ('k list \<times> 'v option list) result" where
  "decodeEntry m l sn i acc =
    (case zeroKey m of
       None \<Rightarrow> Panic ''reflect: New(nil)''
     | Some zk \<Rightarrow>
        (case unmarshalKey (unmarshal m) (stringNode_Key sn ! i) of
           Err e \<Rightarrow> Err (CannotUnmarshalKey i l e)
         | Panic s \<Rightarrow> Panic s
         | Ok newKey \<Rightarrow>
            (case zeroValue m of
               Some zv \<Rightarrow>
                (case unmarshalValue (unmarshal m) (stringNode_Value sn ! i) of
                   Err e \<Rightarrow> Err (CannotUnmarshalValue i l e)
                 | Panic s \<Rightarrow> Panic s
                 | Ok newValue \<Rightarrow> Ok (fst acc @ [newKey], snd acc @ [Some newValue]))
             | None \<Rightarrow> Ok (fst acc @ [newKey], snd acc @ [None]))))"

definition decodeEntries ::
  "('k, 'v) mast \<Rightarrow> string \<Rightarrow> stringNodeT \<Rightarrow> ('k list \<times> 'v option list) result" where
  "decodeEntries m l sn =
    foldl (\<lambda>acc i. bindR acc (decodeEntry m l sn i)) (Ok ([], []))
      [0 ..< length (stringNode_Key sn)]"

text \<open>
  One round of the loop over the serialized links (lines 80 to 86): \<^verbatim>\<open>node.Link[i]\<close>
  is assigned, which panics when \<open>i\<close> is not an index of \<^verbatim>\<open>node.Link\<close>.
\<close>

definition decodeLink :: "string list \<Rightarrow> nat \<Rightarrow> ('k, 'v) link list \<Rightarrow> ('k, 'v) link list result" where
  "decodeLink ls i links =
    (if i < length links
     then Ok (links[i := (if ls ! i = [] then nil else contentHash (ls ! i))])
     else Panic ''index out of range'')"

definition decodeLinks :: "stringNodeT \<Rightarrow> ('k, 'v) link list \<Rightarrow> ('k, 'v) link list result" where
  "decodeLinks sn links =
    (case stringNode_Link sn of
       None \<Rightarrow> Ok links
     | Some ls \<Rightarrow> foldl (\<lambda>acc i. bindR acc (decodeLink ls i)) (Ok links) [0 ..< length ls])"

text \<open>
  \<^verbatim>\<open>contentHash.Load\<close>. A nil \<^verbatim>\<open>m.persist\<close> is a nil dereference.
\<close>

definition contentHash_Load :: "string \<Rightarrow> ('k, 'v) mast \<Rightarrow> ('k, 'v) mastNode result" where
  "contentHash_Load l m =
    (case persist m of
       None \<Rightarrow> Panic ''nil pointer dereference''
     | Some p \<Rightarrow>
        (case p l of
           Err e \<Rightarrow> Err (FailedLoading l e)
         | Panic s \<Rightarrow> Panic s
         | Ok nodeBytes \<Rightarrow>
            (case unmarshalNode (unmarshal m) nodeBytes of
               Err e \<Rightarrow> Err (FailedUnmarshaling l e)
             | Panic s \<Rightarrow> Panic s
             | Ok stringNode \<Rightarrow>
                if length (stringNode_Key stringNode) \<noteq> length (stringNode_Value stringNode)
                then Err (MismatchedKeysValues l)
                else
                  bindR (decodeEntries m l stringNode) (\<lambda>kv.
                  bindR (decodeLinks stringNode
                          (replicate (length (stringNode_Key stringNode) + 1) nil)) (\<lambda>links.
                  Ok (MastNode (fst kv) (snd kv) links))))))"

text \<open>\<^verbatim>\<open>m.load\<close>: the \<^verbatim>\<open>Load\<close> method of the link; a nil link has none.\<close>

fun load :: "('k, 'v) mast \<Rightarrow> ('k, 'v) link \<Rightarrow> ('k, 'v) mastNode result" where
  "load m nil = Panic ''nil pointer dereference''"
| "load m (contentHash l) = contentHash_Load l m"
| "load m (inline node) = Ok node"

section \<open>The tree operations (pub.go)\<close>

text \<open>
  \<^verbatim>\<open>pathEntry\<close> and \<^verbatim>\<open>findOptions\<close> are declared outside the two source files; the
  fields are the ones the source reads and writes (\<^verbatim>\<open>node\<close>; \<^verbatim>\<open>targetLayer\<close>,
  \<^verbatim>\<open>currentHeight\<close>, \<^verbatim>\<open>createMissingNodes\<close>, \<^verbatim>\<open>path\<close>), and the link index that the
  search records with each node.
\<close>

record ('k, 'v) pathEntry =
  node :: "('k, 'v) mastNode"
  linkIndex :: nat

record ('k, 'v) findOptions =
  targetLayer :: uint8
  currentHeight :: uint8
  createMissingNodes :: bool
  path :: "('k, 'v) pathEntry list"

text \<open>
  The functions that the operations call and that are defined outside the two source
  files are parameters: one record of functions, \<open>h\<close> below. The three that assign
  fields of the tree (\<^verbatim>\<open>savePathForRoot\<close>, \<^verbatim>\<open>grow\<close>, \<^verbatim>\<open>shrink\<close>) return the
  tree together with their result, so they may change it also when they fail; the
  others read it. \<^verbatim>\<open>findNode\<close> returns the node, the index and the options it
  updated through the pointer. \<^verbatim>\<open>validateNode\<close> returns nothing: \<open>False\<close> is a
  panic. \<^verbatim>\<open>node.store\<close> receives the whole tree for the store and codec it is
  passed.

  Two facts of the Go run time are parameters as well, since they depend on the
  dynamic types of the values and on the platform. \<open>valueEq\<close> is the \<^verbatim>\<open>==\<close> of Go on two
  interface values that are not nil: false when their dynamic types differ, the
  comparison of the type when they agree, and \<open>None\<close>, a run-time panic, when that
  type is not comparable (a slice, a map, a function). It need not be reflexive: a
  floating point NaN differs from itself. \<open>makesliceOk\<close> says whether \<^verbatim>\<open>make\<close> accepts
  a capacity for a slice of interface values; otherwise \<^verbatim>\<open>make\<close> panics.
\<close>

record ('k, 'v) helpers =
  findNode :: "('k, 'v) mast \<Rightarrow> ('k, 'v) mastNode \<Rightarrow> 'k \<Rightarrow> ('k, 'v) findOptions
                \<Rightarrow> (('k, 'v) mastNode \<times> nat \<times> ('k, 'v) findOptions) result"
  mergeNodes :: "('k, 'v) mast \<Rightarrow> ('k, 'v) link \<Rightarrow> ('k, 'v) link \<Rightarrow> ('k, 'v) link result"
  split :: "('k, 'v) mastNode \<Rightarrow> 'k \<Rightarrow> ('k, 'v) mast \<Rightarrow> (('k, 'v) link \<times> ('k, 'v) link) result"
  canGrow :: "('k, 'v) mastNode \<Rightarrow> uint8 \<Rightarrow> ('k \<Rightarrow> uint \<Rightarrow> uint8 result) \<Rightarrow> uint \<Rightarrow> bool result"
  validateNode :: "('k, 'v) mastNode \<Rightarrow> ('k, 'v) mast \<Rightarrow> bool"
  savePathForRoot :: "('k, 'v) mast \<Rightarrow> ('k, 'v) pathEntry list \<Rightarrow> ('k, 'v) mast \<times> unit result"
  grow :: "('k, 'v) mast \<Rightarrow> ('k, 'v) mast \<times> unit result"
  shrink :: "('k, 'v) mast \<Rightarrow> ('k, 'v) mast \<times> unit result"
  node_store :: "('k, 'v) mastNode \<Rightarrow> ('k, 'v) mast \<Rightarrow> string result"
  checkRoot :: "('k, 'v) mast \<Rightarrow> unit result"
  defaultOrder :: "'k \<Rightarrow> 'k \<Rightarrow> int result"
  defaultLayer :: "'k \<Rightarrow> uint \<Rightarrow> uint8 result"
  defaultUnmarshal :: "('k, 'v) unmarshalT"
  valueEq :: "'v \<Rightarrow> 'v \<Rightarrow> bool option"
  makesliceOk :: "uint \<Rightarrow> bool"

text \<open>
  The comparison \<^verbatim>\<open>a == b\<close> of two interface values, each nil or a value: two nil
  interfaces are equal, nil differs from a value, and two values are compared by
  the \<^verbatim>\<open>==\<close> of Go, which may panic. \<^verbatim>\<open>a != b\<close> is its negation, with the same panic.
\<close>

fun interfaceEq :: "('v \<Rightarrow> 'v \<Rightarrow> bool option) \<Rightarrow> 'v option \<Rightarrow> 'v option \<Rightarrow> bool result" where
  "interfaceEq eq None None = Ok True"
| "interfaceEq eq None (Some b) = Ok False"
| "interfaceEq eq (Some a) None = Ok False"
| "interfaceEq eq (Some a) (Some b) =
     (case eq a b of
        None \<Rightarrow> Panic ''runtime error: comparing uncomparable type''
      | Some same \<Rightarrow> Ok same)"

text \<open>\<^verbatim>\<open>uint8min\<close>: the smaller of two bytes.\<close>

definition uint8min :: "uint8 \<Rightarrow> uint8 \<Rightarrow> uint8" where
  "uint8min a b = (if a < b then a else b)"

text \<open>
  The \<^verbatim>\<open>findOptions\<close> literal that \<^verbatim>\<open>Delete\<close>, \<^verbatim>\<open>Get\<close> and \<^verbatim>\<open>Insert\<close> build from the
  layer of the key: only \<^verbatim>\<open>createMissingNodes\<close> differs between them.
\<close>

definition initOptions :: "('k, 'v) mast \<Rightarrow> uint8 \<Rightarrow> bool \<Rightarrow> ('k, 'v) findOptions" where
  "initOptions m kl create =
    \<lparr>targetLayer = uint8min kl (height m), currentHeight = height m,
     createMissingNodes = create, path = []\<rparr>"

text \<open>
  Modelled from the spec: \<^verbatim>\<open>DefaultBranchFactor\<close> and \<^verbatim>\<open>emptyNodePointer\<close> are
  declared outside the two source files. The default branch factor is 16; the empty
  node has no entry and one nil link.
\<close>

definition DefaultBranchFactor :: uint where
  "DefaultBranchFactor = 16"

definition emptyNodePointer :: "uint \<Rightarrow> ('k, 'v) link" where
  "emptyNodePointer bf = inline (MastNode [] [] [nil])"

text \<open>
  \<^verbatim>\<open>options.path[len(options.path)-1].node = node\<close>: a panic on the empty path.
\<close>

definition setLastNode ::
  "('k, 'v) pathEntry list \<Rightarrow> ('k, 'v) mastNode \<Rightarrow> ('k, 'v) pathEntry list result" where
  "setLastNode p n =
    (if p = [] then Panic ''index out of range''
     else Ok (p[length p - 1 := (p ! (length p - 1))\<lparr>node := n\<rparr>]))"

subsection \<open>Delete\<close>

text \<open>
  Lines 68 to 119 of \<^verbatim>\<open>Delete\<close>: everything between the nil check of the root and the
  call of \<^verbatim>\<open>savePathForRoot\<close>. No field of the tree is assigned there; the result is
  the path to save. Line 98 compares the stored value with the given one by \<^verbatim>\<open>!=\<close> on
  interface values, which may panic. Lines 102 to 106 make the three slices of the
  new node with the capacities \<^verbatim>\<open>branchFactor\<close> and \<^verbatim>\<open>branchFactor+1\<close>, a panic when
  \<^verbatim>\<open>make\<close> refuses one of them. The slice expressions \<^verbatim>\<open>Link[:i]\<close>, \<^verbatim>\<open>Link[i+1:]\<close> and
  the reads of \<^verbatim>\<open>Link[i]\<close>, \<^verbatim>\<open>Link[i+1]\<close> panic unless \<open>i + 1\<close> is an index of \<^verbatim>\<open>Link\<close>.
\<close>

definition Delete_splice ::
  "('k, 'v) helpers \<Rightarrow> ('k, 'v) mast \<Rightarrow> 'k \<Rightarrow> 'v option \<Rightarrow> ('k, 'v) pathEntry list result" where
  "Delete_splice h m key val =
    bindR (wrapErr ''load root'' (load m (root m))) (\<lambda>node0.
    bindR (wrapErr ''layer'' (keyLayer m key (branchFactor m))) (\<lambda>kl.
    bindR (wrapErr ''findNode''
            (findNode h m node0 key
              (initOptions m kl False))) (\<lambda>(oldNode, i, options).
    if targetLayer options \<noteq> currentHeight options \<or> i = length (Key oldNode)
    then Err KeyNotPresent
    else
      bindR (index (Key oldNode) i) (\<lambda>ki.
      bindR (wrapErr ''keyCompare'' (keyOrder m ki key)) (\<lambda>cmp.
      if cmp \<noteq> 0 then Err KeyNotPresent
      else
        bindR (index (Value oldNode) i) (\<lambda>vi.
        bindR (interfaceEq (valueEq h) vi val) (\<lambda>same.
        if \<not> same then Err ValueNotPresent
        else if \<not> (makesliceOk h (branchFactor m) \<and> makesliceOk h (branchFactor m + 1))
        then Panic ''makeslice: cap out of range''
        else if \<not> i + 1 < length (Link oldNode) then Panic ''index out of range''
        else
          bindR (wrapErr ''merge''
                  (mergeNodes h m (Link oldNode ! i) (Link oldNode ! (i + 1)))) (\<lambda>mergedLink.
          let newNode =
                MastNode (take i (Key oldNode) @ drop (i + 1) (Key oldNode))
                         (take i (Value oldNode) @ drop (i + 1) (Value oldNode))
                         ((take i (Link oldNode) @ drop (i + 1) (Link oldNode))[i := mergedLink])
          in if \<not> validateNode h newNode m then Panic ''validateNode''
             else setLastNode (path options) newNode))))))))"

text \<open>
  The loop of lines 125 to 130. \<^verbatim>\<open>shrink\<close> is a parameter, so the loop need not end:
  not returning is \<open>None\<close>.
\<close>

partial_function (option) shrink_loop ::
  "('k, 'v) helpers \<Rightarrow> ('k, 'v) mast \<Rightarrow> (('k, 'v) mast \<times> unit result) option" where
  "shrink_loop h m =
    (if size_m m < shrinkBelowSize m \<and> height m > 0
     then (case shrink h m of
             (m', Ok u) \<Rightarrow> shrink_loop h m'
           | (m', Err e) \<Rightarrow> Some (m', Err (Wrap ''shrink'' e))
           | (m', Panic s) \<Rightarrow> Some (m', Panic s))
     else Some (m, Ok ()))"

definition Delete ::
  "('k, 'v) helpers \<Rightarrow> ('k, 'v) mast \<Rightarrow> 'k \<Rightarrow> 'v option \<Rightarrow> (('k, 'v) mast \<times> unit result) option" where
  "Delete h m key val =
    (if root m = nil then Some (m, Err KeyNotPresent)
     else
       (case Delete_splice h m key val of
          Err e \<Rightarrow> Some (m, Err e)
        | Panic s \<Rightarrow> Some (m, Panic s)
        | Ok p \<Rightarrow>
           (case savePathForRoot h m p of
              (m1, Err e) \<Rightarrow> Some (m1, Err (Wrap ''savePathForRoot'' e))
            | (m1, Panic s) \<Rightarrow> Some (m1, Panic s)
            | (m1, Ok u) \<Rightarrow> shrink_loop h (m1\<lparr>size_m := size_m m1 - 1\<rparr>))))"

subsection \<open>flush and MakeRoot\<close>

definition flush :: "('k, 'v) helpers \<Rightarrow> ('k, 'v) mast \<Rightarrow> ('k, 'v) mast \<times> string result" where
  "flush h m =
    (case persist m of
       None \<Rightarrow> (m, Err NoPersistence)
     | Some p \<Rightarrow>
        (case wrapErr ''load root'' (load m (root m)) of
           Err e \<Rightarrow> (m, Err e)
         | Panic s \<Rightarrow> (m, Panic s)
         | Ok n \<Rightarrow>
            (case node_store h n m of
               Err e \<Rightarrow> (m, Err e)
             | Panic s \<Rightarrow> (m, Panic s)
             | Ok str \<Rightarrow> (m\<lparr>root := contentHash str\<rparr>, Ok str))))"

text \<open>
  \<^verbatim>\<open>MakeRoot\<close> returns \<^verbatim>\<open>&Root{&link, m.size, m.height, m.branchFactor}\<close>: the \<^verbatim>\<open>Link\<close>
  of the handle is the address of the local string, \<open>Some link\<close>.
\<close>

definition MakeRoot :: "('k, 'v) helpers \<Rightarrow> ('k, 'v) mast \<Rightarrow> ('k, 'v) mast \<times> Root result" where
  "MakeRoot h m =
    (case flush h m of
       (m', Err e) \<Rightarrow> (m', Err (Wrap ''flush'' e))
     | (m', Panic s) \<Rightarrow> (m', Panic s)
     | (m', Ok link) \<Rightarrow>
         (m', Ok \<lparr>Root_Link = Some link, Root_Size = size_m m', Root_Height = height m',
                  Root_BranchFactor = branchFactor m'\<rparr>))"

subsection \<open>Get\<close>

text \<open>
  The value pointer is \<open>None\<close> for a nil interface and \<open>Some c\<close> for a pointer to a
  variable that holds \<open>c\<close>. \<open>Get\<close> returns the boolean with the variable as the call
  leaves it; \<open>Err e\<close> is the return \<^verbatim>\<open>(false, e)\<close>, where the variable is not written.
  The tree is not assigned anywhere in \<^verbatim>\<open>Get\<close>.
\<close>

definition Get ::
  "('k, 'v) helpers \<Rightarrow> ('k, 'v) mast \<Rightarrow> 'k \<Rightarrow> 'v option \<Rightarrow> (bool \<times> 'v option) result" where
  "Get h m k valp =
    (if root m = nil then Ok (False, valp)
     else
       bindR (load m (root m)) (\<lambda>node0.
       bindR (wrapErr ''layer'' (keyLayer m k (branchFactor m))) (\<lambda>kl.
       bindR (findNode h m node0 k
               (initOptions m kl False)) (\<lambda>(n, i, options).
       if i \<ge> length (Key n) \<or> targetLayer options \<noteq> currentHeight options
       then Ok (False, valp)
       else
         bindR (wrapErr ''keyCompare'' (keyOrder m (Key n ! i) k)) (\<lambda>cmp.
         if cmp \<noteq> 0 then Ok (False, valp)
         else if valp \<noteq> None
         then bindR (index (Value n) i) (\<lambda>vi.
                case vi of
                  None \<Rightarrow> Ok (True, valp)
                | Some x \<Rightarrow> Ok (True, Some x))
         else Ok (True, valp))))))"

subsection \<open>Insert\<close>

text \<open>
  Lines 218 to 295 of \<^verbatim>\<open>Insert\<close> assign no field of the tree. They end in one of three
  ways: \<^verbatim>\<open>return nil\<close> at line 246 (\<open>Unchanged\<close>), the path handed to
  \<^verbatim>\<open>savePathForRoot\<close> at line 251 (\<open>Replaced\<close>), the path handed to it at line 296
  (\<open>Added\<close>). Line 245 compares the stored value with the given one by \<^verbatim>\<open>==\<close> on
  interface values, which may panic.
\<close>

datatype ('k, 'v) insertPlan =
    Unchanged
  | Replaced "('k, 'v) pathEntry list"
  | Added "('k, 'v) pathEntry list"

text \<open>
  Lines 254 to 295: the new entry is spliced in at \<open>i\<close>. The slice expressions
  \<^verbatim>\<open>oldKeys[:i]\<close>, \<^verbatim>\<open>oldValues[:i]\<close>, \<^verbatim>\<open>oldLinks[i+1:]\<close> and the read of
  \<^verbatim>\<open>oldLinks[i]\<close> panic past the length (capacities are not modelled). In the branch
  without a split, \<^verbatim>\<open>node.Link[i]\<close> is read from the fresh slice, where it is nil.
\<close>

definition Insert_new ::
  "('k, 'v) helpers \<Rightarrow> ('k, 'v) mast \<Rightarrow> 'k \<Rightarrow> 'v option \<Rightarrow> ('k, 'v) mastNode \<Rightarrow> nat
    \<Rightarrow> ('k, 'v) findOptions \<Rightarrow> ('k, 'v) pathEntry list result" where
  "Insert_new h m key val n i options =
    (if \<not> (i \<le> length (Key n) \<and> i \<le> length (Value n) \<and> i < length (Link n))
     then Panic ''index out of range''
     else
       bindR (if Link n ! i \<noteq> nil
              then bindR (load m (Link n ! i)) (\<lambda>child. wrapErr ''split'' (split h child key m))
              else Ok (nil, nil)) (\<lambda>(leftLink, rightLink).
       setLastNode (path options)
         (MastNode (take i (Key n) @ [key] @ drop i (Key n))
                   (take i (Value n) @ [val] @ drop i (Value n))
                   (take i (Link n) @ [leftLink, rightLink] @ drop (i + 1) (Link n)))))"

definition Insert_plan ::
  "('k, 'v) helpers \<Rightarrow> ('k, 'v) mast \<Rightarrow> 'k \<Rightarrow> 'v option \<Rightarrow> ('k, 'v) insertPlan result" where
  "Insert_plan h m key val =
    bindR (wrapErr ''layer'' (keyLayer m key (branchFactor m))) (\<lambda>kl.
    bindR (load m (root m)) (\<lambda>node0.
    bindR (findNode h m node0 key
            (initOptions m kl True)) (\<lambda>(n, i, options).
    if targetLayer options \<noteq> currentHeight options
    then Panic ''dunno why we did not land in the right layer''
    else
      bindR (if i < length (Key n)
             then wrapErr ''keyCompare'' (keyOrder m (Key n ! i) key)
             else Ok 1) (\<lambda>cmp.
      if i < length (Key n) \<and> cmp = 0
      then bindR (index (Value n) i) (\<lambda>vi.
             bindR (interfaceEq (valueEq h) vi val) (\<lambda>same.
             if same then Ok Unchanged
             else bindR (setLastNode (path options)
                          (MastNode (Key n) ((Value n)[i := val]) (Link n))) (\<lambda>p.
                  Ok (Replaced p))))
      else bindR (Insert_new h m key val n i options) (\<lambda>p. Ok (Added p))))))"

text \<open>
  The loop of lines 300 to 316, on the node of \<^verbatim>\<open>options.path[0]\<close>. \<^verbatim>\<open>grow\<close> and
  \<^verbatim>\<open>canGrow\<close> are parameters, so the loop need not end: not returning is \<open>None\<close>.
\<close>

partial_function (option) grow_loop ::
  "('k, 'v) helpers \<Rightarrow> ('k, 'v) mastNode \<Rightarrow> ('k, 'v) mast \<Rightarrow> (('k, 'v) mast \<times> unit result) option" where
  "grow_loop h n0 m =
    (if size_m m \<ge> growAfterSize m
     then (case canGrow h n0 (height m) (keyLayer m) (branchFactor m) of
             Err e \<Rightarrow> Some (m, Err (Wrap ''canGrow'' e))
           | Panic s \<Rightarrow> Some (m, Panic s)
           | Ok cg \<Rightarrow>
              if \<not> cg then Some (m, Ok ())
              else (case grow h m of
                      (m', Ok u) \<Rightarrow> grow_loop h n0 m'
                    | (m', Err e) \<Rightarrow> Some (m', Err (Wrap ''grow'' e))
                    | (m', Panic s) \<Rightarrow> Some (m', Panic s)))
     else Some (m, Ok ()))"

text \<open>
  \<^verbatim>\<open>Insert\<close>: the plan, then lines 296 to 318. \<^verbatim>\<open>m.size++\<close> is the last statement,
  after the loop.
\<close>

definition Insert ::
  "('k, 'v) helpers \<Rightarrow> ('k, 'v) mast \<Rightarrow> 'k \<Rightarrow> 'v option \<Rightarrow> (('k, 'v) mast \<times> unit result) option" where
  "Insert h m key val =
    (case Insert_plan h m key val of
       Err e \<Rightarrow> Some (m, Err e)
     | Panic s \<Rightarrow> Some (m, Panic s)
     | Ok Unchanged \<Rightarrow> Some (m, Ok ())
     | Ok (Replaced p) \<Rightarrow> Some (savePathForRoot h m p)
     | Ok (Added p) \<Rightarrow>
        (case savePathForRoot h m p of
           (m1, Err e) \<Rightarrow> Some (m1, Err (Wrap ''save new root'' e))
         | (m1, Panic s) \<Rightarrow> Some (m1, Panic s)
         | (m1, Ok u) \<Rightarrow>
            (case grow_loop h (node (p ! 0)) m1 of
               None \<Rightarrow> None
             | Some (m2, Ok u) \<Rightarrow> Some (m2\<lparr>size_m := size_m m2 + 1\<rparr>, Ok ())
             | Some (m2, Err e) \<Rightarrow> Some (m2, Err e)
             | Some (m2, Panic s) \<Rightarrow> Some (m2, Panic s))))"

subsection \<open>LoadMast, NewInMemory, NewRoot, Size, store\<close>

text \<open>
  \<^verbatim>\<open>LoadMast\<close>. The loop of lines 355 to 357 multiplies \<^verbatim>\<open>r.Height\<close> times. The
  \<^verbatim>\<open>Mast\<close> literal names no \<^verbatim>\<open>size\<close>, which is therefore 0.
\<close>

definition shrinkSize :: "Root \<Rightarrow> uint64" where
  "shrinkSize r = foldl (\<lambda>s i. s * Root_BranchFactor r) 1 [0 ..< unat (Root_Height r)]"

definition LoadMast ::
  "('k, 'v) helpers \<Rightarrow> Root \<Rightarrow> ('k, 'v) RemoteConfig \<Rightarrow> ('k, 'v) mast result" where
  "LoadMast h r config =
    (let m = \<lparr>root = (case Root_Link r of
                        Some s \<Rightarrow> contentHash s
                      | None \<Rightarrow> emptyNodePointer (Root_BranchFactor r)),
              zeroKey = KeysLike config,
              zeroValue = ValuesLike config,
              unmarshal = (case Unmarshal config of
                             None \<Rightarrow> defaultUnmarshal h
                           | Some u \<Rightarrow> u),
              keyOrder = defaultOrder h,
              keyLayer = defaultLayer h,
              branchFactor = Root_BranchFactor r,
              size_m = 0,
              height = Root_Height r,
              growAfterSize = shrinkSize r * Root_BranchFactor r,
              shrinkBelowSize = shrinkSize r,
              persist = StoreImmutablePartsWith config\<rparr>
     in bindR (wrapErr ''checkRoot'' (checkRoot h m)) (\<lambda>u. Ok m))"

definition NewInMemory :: "('k, 'v) helpers \<Rightarrow> ('k, 'v) mast" where
  "NewInMemory h =
    \<lparr>root = emptyNodePointer DefaultBranchFactor,
     zeroKey = None,
     zeroValue = None,
     unmarshal = defaultUnmarshal h,
     keyOrder = defaultOrder h,
     keyLayer = defaultLayer h,
     branchFactor = DefaultBranchFactor,
     size_m = 0,
     height = 0,
     growAfterSize = DefaultBranchFactor,
     shrinkBelowSize = 1,
     persist = None\<rparr>"

definition NewRoot :: "uint option \<Rightarrow> Root" where
  "NewRoot remoteOptions =
    \<lparr>Root_Link = None, Root_Size = 0, Root_Height = 0,
     Root_BranchFactor = (case remoteOptions of
                            Some bf \<Rightarrow> if bf > 0 then bf else DefaultBranchFactor
                          | None \<Rightarrow> DefaultBranchFactor)\<rparr>"

definition Size :: "('k, 'v) mast \<Rightarrow> uint64" where
  "Size m = size_m m"

definition store :: "('k, 'v) helpers \<Rightarrow> ('k, 'v) mast \<Rightarrow> ('k, 'v) mastNode \<Rightarrow> ('k, 'v) link result" where
  "store h m n =
    (if \<not> validateNode h n m then Panic ''validateNode''
     else if length (Link n) = 1 \<and> Link n ! 0 = nil then Err StoringEmptyNode
     else Ok (inline n))"

section \<open>Notions used in the statements\<close>




section \<open>A flat instance of the parameters\<close>

text \<open>
  An instance with natural numbers as keys and values, used to run the operations
  on concrete trees. Its search, merge, save and shrink handle a tree whose
  entries of the target layer are in the root node; what they do not handle is an
  error. A key that is a non-zero multiple of 16 has layer 1, any other key layer 0.
  The blob store returns the identifier itself as the bytes, except for the
  identifier \<open>missing\<close>, which it does not hold; the codec decodes the five node
  blobs listed and the numerals 1 to 3. Two values are compared by equality, and
  \<^verbatim>\<open>make\<close> accepts a capacity up to \<open>2 ^ 44\<close>.
\<close>

definition fx_decode :: "bytes \<Rightarrow> nat result" where
  "fx_decode b =
    (if b = ''1'' then Ok 1 else if b = ''2'' then Ok 2 else if b = ''3'' then Ok 3
     else Err (External ''invalid character''))"

definition fx_unmarshalNode :: "bytes \<Rightarrow> stringNodeT result" where
  "fx_unmarshalNode b =
    (if b = ''good'' then
       Ok \<lparr>stringNode_Key = [''1'', ''2''], stringNode_Value = [''3'', ''3''],
           stringNode_Link = Some ['''', ''good'', '''']\<rparr>
     else if b = ''badvalue'' then
       Ok \<lparr>stringNode_Key = [''1'', ''2''], stringNode_Value = [''3'', ''x''],
           stringNode_Link = None\<rparr>
     else if b = ''badkey'' then
       Ok \<lparr>stringNode_Key = [''1'', ''x''], stringNode_Value = [''3'', ''3''],
           stringNode_Link = None\<rparr>
     else if b = ''uneven'' then
       Ok \<lparr>stringNode_Key = [''1''], stringNode_Value = [], stringNode_Link = None\<rparr>
     else if b = ''long'' then
       Ok \<lparr>stringNode_Key = [], stringNode_Value = [], stringNode_Link = Some [''good'', ''good'']\<rparr>
     else Err (External ''unexpected end of input''))"

definition fx_unmarshal :: "(nat, nat) unmarshalT" where
  "fx_unmarshal =
    \<lparr>unmarshalNode = fx_unmarshalNode, unmarshalKey = fx_decode, unmarshalValue = fx_decode\<rparr>"

definition fx_persist :: persistT where
  "fx_persist l = (if l = ''missing'' then Err (External ''not found'') else Ok l)"

definition fx_order :: "nat \<Rightarrow> nat \<Rightarrow> int result" where
  "fx_order a b = Ok (if a < b then - 1 else if a = b then 0 else 1)"

definition fx_layer :: "nat \<Rightarrow> uint \<Rightarrow> uint8 result" where
  "fx_layer k bf = Ok (if k \<noteq> 0 \<and> k mod 16 = 0 then 1 else 0)"

definition fx_findNode ::
  "(nat, nat) mast \<Rightarrow> (nat, nat) mastNode \<Rightarrow> nat \<Rightarrow> (nat, nat) findOptions
    \<Rightarrow> ((nat, nat) mastNode \<times> nat \<times> (nat, nat) findOptions) result" where
  "fx_findNode m n key options =
    (if targetLayer options = currentHeight options
     then Ok (n, length (filter (\<lambda>x. x < key) (Key n)),
              options\<lparr>path := path options @
                 [\<lparr>node = n, linkIndex = length (filter (\<lambda>x. x < key) (Key n))\<rparr>]\<rparr>)
     else Err (External ''no lower layer in the flat instance''))"

definition fx_mergeNodes ::
  "(nat, nat) mast \<Rightarrow> (nat, nat) link \<Rightarrow> (nat, nat) link \<Rightarrow> (nat, nat) link result" where
  "fx_mergeNodes m a b =
    (if b = nil then Ok a else if a = nil then Ok b
     else Err (External ''no merge of two nodes in the flat instance''))"

definition fx_canGrow ::
  "(nat, nat) mastNode \<Rightarrow> uint8 \<Rightarrow> (nat \<Rightarrow> uint \<Rightarrow> uint8 result) \<Rightarrow> uint \<Rightarrow> bool result" where
  "fx_canGrow n hgt layer bf =
    Ok (list_ex (\<lambda>k. case layer k bf of Ok l \<Rightarrow> l > hgt | Err e \<Rightarrow> False | Panic s \<Rightarrow> False) (Key n))"

definition fx_validateNode :: "(nat, nat) mastNode \<Rightarrow> (nat, nat) mast \<Rightarrow> bool" where
  "fx_validateNode n m \<longleftrightarrow>
    length (Value n) = length (Key n) \<and> length (Link n) = length (Key n) + 1"

definition fx_savePathForRoot ::
  "(nat, nat) mast \<Rightarrow> (nat, nat) pathEntry list \<Rightarrow> (nat, nat) mast \<times> unit result" where
  "fx_savePathForRoot m p =
    (case p of
       [e] \<Rightarrow> (m\<lparr>root := inline (node e)\<rparr>, Ok ())
     | _ \<Rightarrow> (m, Err (External ''no longer path in the flat instance'')))"

definition fx_shrink :: "(nat, nat) mast \<Rightarrow> (nat, nat) mast \<times> unit result" where
  "fx_shrink m =
    (case root m of
       inline n \<Rightarrow>
        (if Key n = [] \<and> length (Link n) = 1
         then (case load m (Link n ! 0) of
                 Ok c \<Rightarrow> (m\<lparr>root := inline c, height := height m - 1,
                             growAfterSize := shrinkBelowSize m,
                             shrinkBelowSize := shrinkBelowSize m div branchFactor m\<rparr>, Ok ())
               | Err e \<Rightarrow> (m, Err e)
               | Panic s \<Rightarrow> (m, Panic s))
         else (m, Err (External ''no merge of entries in the flat instance'')))
     | _ \<Rightarrow> (m, Err (External ''root not in memory'')))"

definition fx_node_store :: "(nat, nat) mastNode \<Rightarrow> (nat, nat) mast \<Rightarrow> string result" where
  "fx_node_store n m = Ok (if Key n = [] then ''empty'' else ''stored'')"

definition fx_checkRoot :: "(nat, nat) mast \<Rightarrow> unit result" where
  "fx_checkRoot m = bindR (load m (root m)) (\<lambda>n. Ok ())"

definition fx :: "(nat, nat) helpers" where
  "fx =
    \<lparr>findNode = fx_findNode,
     mergeNodes = fx_mergeNodes,
     split = (\<lambda>n k m. Err (External ''no split in the flat instance'')),
     canGrow = fx_canGrow,
     validateNode = fx_validateNode,
     savePathForRoot = fx_savePathForRoot,
     grow = (\<lambda>m. (m, Err (External ''no growth in the flat instance''))),
     shrink = fx_shrink,
     node_store = fx_node_store,
     checkRoot = fx_checkRoot,
     defaultOrder = fx_order,
     defaultLayer = fx_layer,
     defaultUnmarshal = fx_unmarshal,
     valueEq = (\<lambda>a b. Some (a = b)),
     makesliceOk = (\<lambda>c. c \<le> 17592186044416)\<rparr>"

definition fx_tree ::
  "(nat, nat) link \<Rightarrow> uint64 \<Rightarrow> uint8 \<Rightarrow> uint64 \<Rightarrow> uint64 \<Rightarrow> (nat, nat) mast" where
  "fx_tree r s hgt shrinkSz growSz =
    \<lparr>root = r, zeroKey = Some 0, zeroValue = Some 0, unmarshal = fx_unmarshal,
     keyOrder = fx_order, keyLayer = fx_layer, branchFactor = 16, size_m = s, height = hgt,
     growAfterSize = growSz, shrinkBelowSize = shrinkSz, persist = Some fx_persist\<rparr>"

section \<open>Lemmas\<close>

lemmas fx_defs = fx_def fx_tree_def fx_findNode_def fx_mergeNodes_def fx_canGrow_def
  fx_validateNode_def fx_savePathForRoot_def fx_shrink_def fx_node_store_def fx_checkRoot_def
  fx_order_def fx_layer_def fx_unmarshal_def fx_unmarshalNode_def fx_decode_def fx_persist_def

lemma bindR_Ok_iff: "bindR r f = Ok y \<longleftrightarrow> (\<exists>x. r = Ok x \<and> f x = Ok y)"
  by (cases r) auto











section \<open>Loading a node by content hash\<close>


lemmas load_defs = contentHash_Load_def decodeEntries_def decodeLinks_def decodeLink_def
  decodeEntry_def



text \<open>
  \<^bold>\<open>C10\<close>. \<^verbatim>\<open>contentHash.Load\<close> is not total over the bytes of the store: the blob
  \<open>long\<close> decodes to a node with no key and two links, and the assignment of the
  second link is out of range of the one-element \<^verbatim>\<open>node.Link\<close>.
\<close>

theorem contentHash_Load_long_Link_panics:
  "contentHash_Load ''long'' (fx_tree nil 0 0 1 16) = Panic ''index out of range''"
  by (simp add: load_defs fx_defs)

section \<open>LoadMast and MakeRoot\<close>

lemma foldl_times_power: "foldl (\<lambda>s i. s * b) (1 :: uint64) [0 ..< n] = b ^ n"
  by (induction n) (simp_all add: mult.commute)

lemma shrinkSize_power: "shrinkSize r = Root_BranchFactor r ^ unat (Root_Height r)"
  by (simp add: shrinkSize_def foldl_times_power)

lemma unat_power_mod: "unat ((b :: uint64) ^ n) = unat b ^ n mod 2 ^ 64"
proof -
  have "b ^ n = of_nat (unat b ^ n)" by simp
  then have "unat (b ^ n) = unat (of_nat (unat b ^ n) :: uint64)" by simp
  also have "\<dots> = unat b ^ n mod 2 ^ 64" by (simp only: unat_of_nat len_of_numeral_defs) simp
  finally show ?thesis .
qed

lemma power_lt_of_Suc:
  assumes "(a :: nat) ^ (n + 1) < 2 ^ 64"
  shows "a ^ n < 2 ^ 64"
proof (cases "a = 0")
  case True
  then show ?thesis by (cases n) simp_all
next
  case False
  then have "a ^ n \<le> a ^ (n + 1)" by simp
  with assms show ?thesis by linarith
qed

text \<open>
  \<^bold>\<open>C7\<close>, as the code has it. A tree that \<^verbatim>\<open>LoadMast\<close> returns has \<^verbatim>\<open>shrinkBelowSize\<close> equal
  to the branch factor of the handle to the power of its height, and
  \<^verbatim>\<open>growAfterSize\<close> equal to the branch factor to the power of the height plus one,
  both in the arithmetic of \<^verbatim>\<open>uint64\<close>, that is modulo \<open>2 ^ 64\<close>; a nil \<^verbatim>\<open>Link\<close> gives the
  node of \<^verbatim>\<open>emptyNodePointer\<close>, the empty node in memory, as the root. Where the
  larger power is below \<open>2 ^ 64\<close>, both thresholds are the powers of the natural
  numbers.
\<close>

theorem LoadMast_thresholds:
  assumes "LoadMast h r config = Ok m"
  shows "shrinkBelowSize m = Root_BranchFactor r ^ unat (Root_Height r)
     \<and> growAfterSize m = Root_BranchFactor r ^ (unat (Root_Height r) + 1)
     \<and> unat (shrinkBelowSize m)
         = unat (Root_BranchFactor r) ^ unat (Root_Height r) mod 2 ^ 64
     \<and> unat (growAfterSize m)
         = unat (Root_BranchFactor r) ^ (unat (Root_Height r) + 1) mod 2 ^ 64
     \<and> (Root_Link r = None \<longrightarrow> root m = emptyNodePointer (Root_BranchFactor r))
     \<and> (unat (Root_BranchFactor r) ^ (unat (Root_Height r) + 1) < 2 ^ 64 \<longrightarrow>
          unat (shrinkBelowSize m) = unat (Root_BranchFactor r) ^ unat (Root_Height r)
        \<and> unat (growAfterSize m) = unat (Root_BranchFactor r) ^ (unat (Root_Height r) + 1))"
proof -
  from assms have s: "shrinkBelowSize m = Root_BranchFactor r ^ unat (Root_Height r)"
    and g: "growAfterSize m = Root_BranchFactor r ^ (unat (Root_Height r) + 1)"
    and l: "Root_Link r = None \<longrightarrow> root m = emptyNodePointer (Root_BranchFactor r)"
    by (auto simp: LoadMast_def Let_def bindR_Ok_iff shrinkSize_power mult.commute)
  have sm: "unat (shrinkBelowSize m)
         = unat (Root_BranchFactor r) ^ unat (Root_Height r) mod 2 ^ 64"
    unfolding s by (rule unat_power_mod)
  have gm: "unat (growAfterSize m)
         = unat (Root_BranchFactor r) ^ (unat (Root_Height r) + 1) mod 2 ^ 64"
    unfolding g by (rule unat_power_mod)
  have "unat (shrinkBelowSize m) = unat (Root_BranchFactor r) ^ unat (Root_Height r)
        \<and> unat (growAfterSize m) = unat (Root_BranchFactor r) ^ (unat (Root_Height r) + 1)"
    if lt: "unat (Root_BranchFactor r) ^ (unat (Root_Height r) + 1) < 2 ^ 64"
  proof -
    from power_lt_of_Suc[OF lt]
    have "unat (Root_BranchFactor r) ^ unat (Root_Height r) < 2 ^ 64" .
    with lt show ?thesis
      unfolding sm gm by simp
  qed
  with s g sm gm l show ?thesis by blast
qed

text \<open>
  On the flat instance: the handle of height 2 and branch factor 16 with a nil
  link loads with the thresholds 256 and 4096, and the handle of height 14 with
  the thresholds \<open>16 ^ 14\<close> and \<open>16 ^ 15\<close>.
\<close>

theorem LoadMast_thresholds_witness:
  "LoadMast fx \<lparr>Root_Link = None, Root_Size = 0, Root_Height = 2, Root_BranchFactor = 16\<rparr>
      \<lparr>KeysLike = Some 0, ValuesLike = Some 0, StoreImmutablePartsWith = Some fx_persist,
       Unmarshal = None\<rparr>
    = Ok (fx_tree (inline (MastNode [] [] [nil])) 0 2 256 4096)
   \<and> root (fx_tree (inline (MastNode [] [] [nil])) 0 2 256 4096) = emptyNodePointer 16
   \<and> shrinkBelowSize (fx_tree (inline (MastNode [] [] [nil])) 0 2 256 4096) = 16 ^ 2
   \<and> unat (growAfterSize (fx_tree (inline (MastNode [] [] [nil])) 0 2 256 4096)) = 16 ^ 3
   \<and> LoadMast fx \<lparr>Root_Link = None, Root_Size = 0, Root_Height = 14, Root_BranchFactor = 16\<rparr>
      \<lparr>KeysLike = Some 0, ValuesLike = Some 0, StoreImmutablePartsWith = Some fx_persist,
       Unmarshal = None\<rparr>
    = Ok (fx_tree (inline (MastNode [] [] [nil])) 0 14 72057594037927936 1152921504606846976)
   \<and> unat (shrinkBelowSize
        (fx_tree (inline (MastNode [] [] [nil])) 0 14 72057594037927936 1152921504606846976))
      = 16 ^ 14
   \<and> unat (growAfterSize
        (fx_tree (inline (MastNode [] [] [nil])) 0 14 72057594037927936 1152921504606846976))
      = 16 ^ 15"
proof -
  have e: "LoadMast fx \<lparr>Root_Link = None, Root_Size = 0, Root_Height = 2, Root_BranchFactor = 16\<rparr>
      \<lparr>KeysLike = Some 0, ValuesLike = Some 0, StoreImmutablePartsWith = Some fx_persist,
       Unmarshal = None\<rparr>
    = Ok (fx_tree (inline (MastNode [] [] [nil])) 0 2 256 4096)"
    by (simp add: LoadMast_def shrinkSize_power emptyNodePointer_def fx_defs)
  have f: "LoadMast fx \<lparr>Root_Link = None, Root_Size = 0, Root_Height = 14, Root_BranchFactor = 16\<rparr>
      \<lparr>KeysLike = Some 0, ValuesLike = Some 0, StoreImmutablePartsWith = Some fx_persist,
       Unmarshal = None\<rparr>
    = Ok (fx_tree (inline (MastNode [] [] [nil])) 0 14 72057594037927936 1152921504606846976)"
    by (simp add: LoadMast_def shrinkSize_power emptyNodePointer_def fx_defs)
  from LoadMast_thresholds[OF e] LoadMast_thresholds[OF f] e f show ?thesis by simp
qed

text \<open>
  The claim as stated fails on the handle of height 16 and branch factor 16, which
  \<^verbatim>\<open>LoadMast\<close> accepts: \<open>16 ^ 16\<close> is \<open>2 ^ 64\<close>, and both thresholds of the tree are 0.
\<close>

theorem LoadMast_thresholds_wrap:
  "LoadMast fx \<lparr>Root_Link = None, Root_Size = 0, Root_Height = 16, Root_BranchFactor = 16\<rparr>
      \<lparr>KeysLike = Some 0, ValuesLike = Some 0, StoreImmutablePartsWith = Some fx_persist,
       Unmarshal = None\<rparr>
    = Ok (fx_tree (inline (MastNode [] [] [nil])) 0 16 0 0)
   \<and> unat (shrinkBelowSize (fx_tree (inline (MastNode [] [] [nil])) 0 16 0 0)) = 0
   \<and> unat (growAfterSize (fx_tree (inline (MastNode [] [] [nil])) 0 16 0 0)) = 0
   \<and> unat (Root_BranchFactor
        \<lparr>Root_Link = None, Root_Size = 0, Root_Height = 16, Root_BranchFactor = 16\<rparr>)
      ^ unat (Root_Height
        \<lparr>Root_Link = None, Root_Size = 0, Root_Height = 16, Root_BranchFactor = 16\<rparr>)
      = (18446744073709551616 :: nat)"
  by (simp add: LoadMast_def shrinkSize_power emptyNodePointer_def fx_defs)

text \<open>
  \<^bold>\<open>C5\<close>, as the code has it. The handle that \<^verbatim>\<open>MakeRoot\<close> returns never has a nil
  \<^verbatim>\<open>Link\<close>: it points to the identifier that \<^verbatim>\<open>flush\<close> returned, which is the new root
  of the tree; \<^verbatim>\<open>Size\<close>, \<^verbatim>\<open>Height\<close> and \<^verbatim>\<open>BranchFactor\<close> are those of the tree, so 0 and 0
  for an empty tree of height 0.
\<close>

theorem MakeRoot_handle:
  assumes "MakeRoot h m = (m', Ok r)"
  shows "(\<exists>s. Root_Link r = Some s \<and> root m' = contentHash s)
     \<and> Root_Size r = size_m m \<and> Root_Height r = height m
     \<and> Root_BranchFactor r = branchFactor m"
  using assms
  by (auto simp: MakeRoot_def flush_def split: option.splits result.splits prod.splits)

text \<open>
  On the flat instance: the new in-memory tree, with the blob store set, is empty;
  its handle has size 0, height 0 and the identifier of the stored empty node as
  link.
\<close>

theorem MakeRoot_handle_witness:
  "MakeRoot fx ((NewInMemory fx)\<lparr>persist := Some fx_persist\<rparr>)
     = ((NewInMemory fx)\<lparr>persist := Some fx_persist, root := contentHash ''empty''\<rparr>,
        Ok \<lparr>Root_Link = Some ''empty'', Root_Size = 0, Root_Height = 0, Root_BranchFactor = 16\<rparr>)
   \<and> Root_Size \<lparr>Root_Link = Some ''empty'', Root_Size = 0, Root_Height = 0, Root_BranchFactor = 16\<rparr>
       = size_m ((NewInMemory fx)\<lparr>persist := Some fx_persist\<rparr>)"
proof -
  have e: "MakeRoot fx ((NewInMemory fx)\<lparr>persist := Some fx_persist\<rparr>)
     = ((NewInMemory fx)\<lparr>persist := Some fx_persist, root := contentHash ''empty''\<rparr>,
        Ok \<lparr>Root_Link = Some ''empty'', Root_Size = 0, Root_Height = 0, Root_BranchFactor = 16\<rparr>)"
    by (simp add: MakeRoot_def flush_def NewInMemory_def emptyNodePointer_def
        DefaultBranchFactor_def fx_defs)
  from MakeRoot_handle[OF e] e show ?thesis by simp
qed

text \<open>
  The claim as stated fails on that tree: the link of the handle is not nil.
\<close>

theorem MakeRoot_empty_Link_not_nil:
  "size_m ((NewInMemory fx)\<lparr>persist := Some fx_persist\<rparr>) = 0
   \<and> snd (MakeRoot fx ((NewInMemory fx)\<lparr>persist := Some fx_persist\<rparr>))
     = Ok \<lparr>Root_Link = Some ''empty'', Root_Size = 0, Root_Height = 0, Root_BranchFactor = 16\<rparr>
   \<and> Root_Link \<lparr>Root_Link = Some ''empty'', Root_Size = 0, Root_Height = 0, Root_BranchFactor = 16\<rparr>
     \<noteq> None"
  by (simp add: MakeRoot_def flush_def NewInMemory_def emptyNodePointer_def
      DefaultBranchFactor_def fx_defs)

section \<open>Get\<close>

text \<open>
  \<^bold>\<open>C6\<close>. \<^verbatim>\<open>Get\<close> returns \<^verbatim>\<open>(false, nil)\<close>, and leaves the variable behind the value
  pointer as it was, for a key that is not in the tree: when the root is nil, and
  when the root loads, the layer of the key is computed and the search returns
  node \<open>n\<close> and index \<open>i\<close>, but \<open>i\<close> is no index of the keys of \<open>n\<close>, or the search did
  not end in the layer of the key, or the key at \<open>i\<close> compares different. An error
  of \<^verbatim>\<open>Get\<close> is never about an absent key: it is the error of the load of the root,
  of the layer function, of the search or of the comparison.
\<close>

theorem Get_absent:
  "(root m = nil \<longrightarrow> Get h m k valp = Ok (False, valp))
   \<and> (\<forall>n0 kl n i options.
        root m \<noteq> nil \<and> load m (root m) = Ok n0 \<and> keyLayer m k (branchFactor m) = Ok kl
        \<and> findNode h m n0 k (initOptions m kl False) = Ok (n, i, options)
        \<and> (i \<ge> length (Key n) \<or> targetLayer options \<noteq> currentHeight options
            \<or> (\<exists>c. keyOrder m (Key n ! i) k = Ok c \<and> c \<noteq> 0))
        \<longrightarrow> Get h m k valp = Ok (False, valp))
   \<and> (\<forall>e. Get h m k valp = Err e \<longrightarrow>
          load m (root m) = Err e
        \<or> (\<exists>e'. keyLayer m k (branchFactor m) = Err e' \<and> e = Wrap ''layer'' e')
        \<or> (\<exists>n0 kl. load m (root m) = Ok n0 \<and> keyLayer m k (branchFactor m) = Ok kl
              \<and> findNode h m n0 k (initOptions m kl False) = Err e)
        \<or> (\<exists>n0 kl n i options e'.
              load m (root m) = Ok n0 \<and> keyLayer m k (branchFactor m) = Ok kl
              \<and> findNode h m n0 k (initOptions m kl False) = Ok (n, i, options)
              \<and> keyOrder m (Key n ! i) k = Err e' \<and> e = Wrap ''keyCompare'' e'))"
proof (intro conjI allI impI)
  assume "root m = nil"
  then show "Get h m k valp = Ok (False, valp)" by (simp add: Get_def)
next
  fix n0 kl n i options
  assume "root m \<noteq> nil \<and> load m (root m) = Ok n0 \<and> keyLayer m k (branchFactor m) = Ok kl
        \<and> findNode h m n0 k (initOptions m kl False) = Ok (n, i, options)
        \<and> (i \<ge> length (Key n) \<or> targetLayer options \<noteq> currentHeight options
            \<or> (\<exists>c. keyOrder m (Key n ! i) k = Ok c \<and> c \<noteq> 0))"
  then show "Get h m k valp = Ok (False, valp)" by (auto simp: Get_def)
next
  fix e
  assume a: "Get h m k valp = Err e"
  then have nn: "root m \<noteq> nil" by (auto simp: Get_def)
  show "load m (root m) = Err e
        \<or> (\<exists>e'. keyLayer m k (branchFactor m) = Err e' \<and> e = Wrap ''layer'' e')
        \<or> (\<exists>n0 kl. load m (root m) = Ok n0 \<and> keyLayer m k (branchFactor m) = Ok kl
              \<and> findNode h m n0 k (initOptions m kl False) = Err e)
        \<or> (\<exists>n0 kl n i options e'.
              load m (root m) = Ok n0 \<and> keyLayer m k (branchFactor m) = Ok kl
              \<and> findNode h m n0 k (initOptions m kl False) = Ok (n, i, options)
              \<and> keyOrder m (Key n ! i) k = Err e' \<and> e = Wrap ''keyCompare'' e')"
  proof (cases "load m (root m)")
    case (Err e0)
    with a nn show ?thesis by (simp add: Get_def)
  next
    case (Panic s)
    with a nn show ?thesis by (simp add: Get_def)
  next
    case (Ok n0)
    note l = this
    show ?thesis
    proof (cases "keyLayer m k (branchFactor m)")
      case (Err e0)
      with a nn l show ?thesis by (simp add: Get_def)
    next
      case (Panic s)
      with a nn l show ?thesis by (simp add: Get_def)
    next
      case (Ok kl)
      note kl = this
      show ?thesis
      proof (cases "findNode h m n0 k (initOptions m kl False)")
        case (Err e0)
        with a nn l kl show ?thesis by (simp add: Get_def)
      next
        case (Panic s)
        with a nn l kl show ?thesis by (simp add: Get_def)
      next
        case (Ok t)
        obtain n i options where t: "t = (n, i, options)" by (cases t) auto
        from a nn l kl Ok t
        have "\<exists>e'. keyOrder m (Key n ! i) k = Err e' \<and> e = Wrap ''keyCompare'' e'"
          by (cases "keyOrder m (Key n ! i) k")
             (auto simp: Get_def index_def split: if_splits option.splits)
        with l kl Ok t show ?thesis by blast
      qed
    qed
  qed
qed

text \<open>
  On the flat instance, with the tree of the entries 1 (value 3) and 3 (nil value):
  the key 2 is absent, any key is absent from the tree of the nil root and from the
  tree of the empty root node, and the error
  of the tree whose root is not in the store is the error of the load.
\<close>

theorem Get_absent_witness:
  "Get fx (fx_tree nil 0 0 1 16) 2 (Some 9) = Ok (False, Some 9)
   \<and> Get fx (fx_tree (inline (MastNode [1, 3] [Some 3, None] [nil, nil, nil])) 2 0 1 16) 2 (Some 9)
       = Ok (False, Some 9)
   \<and> Get fx (fx_tree (inline (MastNode [] [] [nil])) 0 0 1 16) 2 (Some 9) = Ok (False, Some 9)
   \<and> Get fx (fx_tree (contentHash ''missing'') 2 0 1 16) 2 (Some 9)
       = Err (FailedLoading ''missing'' (External ''not found''))
   \<and> load (fx_tree (contentHash ''missing'') 2 0 1 16) (contentHash ''missing'')
       = Err (FailedLoading ''missing'' (External ''not found''))"
proof -
  let ?n = "MastNode [1, 3] [Some 3, None] [nil, nil, nil] :: (nat, nat) mastNode"
  let ?m = "fx_tree (inline ?n) 2 0 1 16"
  have 1: "Get fx (fx_tree nil 0 0 1 16) 2 (Some 9) = Ok (False, Some 9)"
    using Get_absent[of "fx_tree nil 0 0 1 16" fx 2 "Some 9"] by (simp add: fx_tree_def)
  have "findNode fx ?m ?n 2 (initOptions ?m 0 False)
      = Ok (?n, 1, (initOptions ?m 0 False)\<lparr>path := [\<lparr>node = ?n, linkIndex = 1\<rparr>]\<rparr>)"
    by (simp add: initOptions_def uint8min_def fx_defs)
  with Get_absent[of ?m fx 2 "Some 9"]
  have 2: "Get fx ?m 2 (Some 9) = Ok (False, Some 9)"
    by (simp add: initOptions_def uint8min_def fx_defs)
  have 3: "Get fx (fx_tree (contentHash ''missing'') 2 0 1 16) 2 (Some 9)
       = Err (FailedLoading ''missing'' (External ''not found''))"
    by (simp add: Get_def contentHash_Load_def fx_defs)
  have 4: "load (fx_tree (contentHash ''missing'') 2 0 1 16) (contentHash ''missing'')
       = Err (FailedLoading ''missing'' (External ''not found''))"
    using Get_absent[of "fx_tree (contentHash ''missing'') 2 0 1 16" fx 2 "Some 9"] 3
    by (simp add: contentHash_Load_def fx_defs)
  have 5: "Get fx (fx_tree (inline (MastNode [] [] [nil])) 0 0 1 16) 2 (Some 9) = Ok (False, Some 9)"
    by (simp add: Get_def initOptions_def uint8min_def fx_defs)
  from 1 2 3 4 5 show ?thesis by simp
qed

text \<open>
  \<^bold>\<open>C9\<close>. When the search finds the key at index \<open>i\<close> of node \<open>n\<close> and the value stored
  there is nil, \<^verbatim>\<open>Get\<close> with a pointer to a variable holding \<open>c\<close> returns
  \<^verbatim>\<open>(true, nil)\<close> and the variable still holds \<open>c\<close>.
\<close>

theorem Get_nil_value:
  assumes "root m \<noteq> nil" and "load m (root m) = Ok n0"
    and "keyLayer m k (branchFactor m) = Ok kl"
    and "findNode h m n0 k (initOptions m kl False) = Ok (n, i, options)"
    and "i < length (Key n)" and "targetLayer options = currentHeight options"
    and "keyOrder m (Key n ! i) k = Ok 0"
    and "i < length (Value n)" and "Value n ! i = None"
  shows "Get h m k (Some c) = Ok (True, Some c)"
  using assms by (simp add: Get_def index_def)

text \<open>On the flat instance: the key 3 of the tree above, whose stored value is nil.\<close>

theorem Get_nil_value_witness:
  "Get fx (fx_tree (inline (MastNode [1, 3] [Some 3, None] [nil, nil, nil])) 2 0 1 16) 3 (Some 9)
       = Ok (True, Some 9)"
proof -
  let ?n = "MastNode [1, 3] [Some 3, None] [nil, nil, nil] :: (nat, nat) mastNode"
  let ?m = "fx_tree (inline ?n) 2 0 1 16"
  have f: "findNode fx ?m ?n 3 (initOptions ?m 0 False)
      = Ok (?n, 1, (initOptions ?m 0 False)\<lparr>path := [\<lparr>node = ?n, linkIndex = 1\<rparr>]\<rparr>)"
    by (simp add: initOptions_def uint8min_def fx_defs)
  show ?thesis
    by (rule Get_nil_value[where ?n0.0 = ?n and kl = 0, OF _ _ _ f])
       (simp_all add: initOptions_def uint8min_def fx_defs)
qed

section \<open>Delete and Insert\<close>

lemma wrapErr_Ok_iff: "wrapErr s r = Ok x \<longleftrightarrow> r = Ok x"
  by (cases r) auto

lemma index_Ok_iff: "index xs i = Ok v \<longleftrightarrow> i < length xs \<and> v = xs ! i"
  by (auto simp: index_def)

text \<open>Induction over the rounds of the two loops, for a run that returns.\<close>

lemma shrink_loop_induct:
  fixes h :: "('k, 'v) helpers"
  assumes run: "shrink_loop h m = Some y"
    and stop: "\<And>m. \<not> (size_m m < shrinkBelowSize m \<and> 0 < height m) \<Longrightarrow> P m (m, Ok ())"
    and err: "\<And>m m1 e. size_m m < shrinkBelowSize m \<and> 0 < height m \<Longrightarrow> shrink h m = (m1, Err e)
                \<Longrightarrow> P m (m1, Err (Wrap ''shrink'' e))"
    and pan: "\<And>m m1 s. size_m m < shrinkBelowSize m \<and> 0 < height m \<Longrightarrow> shrink h m = (m1, Panic s)
                \<Longrightarrow> P m (m1, Panic s)"
    and step: "\<And>m m1 u y. size_m m < shrinkBelowSize m \<and> 0 < height m \<Longrightarrow> shrink h m = (m1, Ok u)
                \<Longrightarrow> P m1 y \<Longrightarrow> P m y"
  shows "P m y"
proof -
  have "(\<forall>m. \<not> (size_m m < shrinkBelowSize m \<and> 0 < height m) \<longrightarrow> P m (m, Ok ()))
      \<and> (\<forall>m m1 e. size_m m < shrinkBelowSize m \<and> 0 < height m \<and> shrink h m = (m1, Err e)
                \<longrightarrow> P m (m1, Err (Wrap ''shrink'' e)))
      \<and> (\<forall>m m1 s. size_m m < shrinkBelowSize m \<and> 0 < height m \<and> shrink h m = (m1, Panic s)
                \<longrightarrow> P m (m1, Panic s))
      \<and> (\<forall>m m1 u y. size_m m < shrinkBelowSize m \<and> 0 < height m \<and> shrink h m = (m1, Ok u)
                \<and> P m1 y \<longrightarrow> P m y)
      \<longrightarrow> P m y"
  proof (rule shrink_loop.raw_induct[where P = "\<lambda>h m y.
      (\<forall>m. \<not> (size_m m < shrinkBelowSize m \<and> 0 < height m) \<longrightarrow> P m (m, Ok ()))
      \<and> (\<forall>m m1 e. size_m m < shrinkBelowSize m \<and> 0 < height m \<and> shrink h m = (m1, Err e)
                \<longrightarrow> P m (m1, Err (Wrap ''shrink'' e)))
      \<and> (\<forall>m m1 s. size_m m < shrinkBelowSize m \<and> 0 < height m \<and> shrink h m = (m1, Panic s)
                \<longrightarrow> P m (m1, Panic s))
      \<and> (\<forall>m m1 u y. size_m m < shrinkBelowSize m \<and> 0 < height m \<and> shrink h m = (m1, Ok u)
                \<and> P m1 y \<longrightarrow> P m y)
      \<longrightarrow> P m y", OF _ run])
    fix f :: "('k, 'v) helpers \<Rightarrow> ('k, 'v) mast \<Rightarrow> (('k, 'v) mast \<times> unit result) option"
      and h :: "('k, 'v) helpers" and m :: "('k, 'v) mast" and y
    let ?A = "\<lambda>h. (\<forall>m. \<not> (size_m m < shrinkBelowSize m \<and> 0 < height m) \<longrightarrow> P m (m, Ok ()))
      \<and> (\<forall>m m1 e. size_m m < shrinkBelowSize m \<and> 0 < height m \<and> shrink h m = (m1, Err e)
                \<longrightarrow> P m (m1, Err (Wrap ''shrink'' e)))
      \<and> (\<forall>m m1 s. size_m m < shrinkBelowSize m \<and> 0 < height m \<and> shrink h m = (m1, Panic s)
                \<longrightarrow> P m (m1, Panic s))
      \<and> (\<forall>m m1 u y. size_m m < shrinkBelowSize m \<and> 0 < height m \<and> shrink h m = (m1, Ok u)
                \<and> P m1 y \<longrightarrow> P m y)"
    assume IH: "\<And>h m y. f h m = Some y \<Longrightarrow> ?A h \<longrightarrow> P m y"
    assume body: "(if size_m m < shrinkBelowSize m \<and> 0 < height m
      then case shrink h m of (m', Ok u) \<Rightarrow> f h m'
           | (m', Err e) \<Rightarrow> Some (m', Err (Wrap ''shrink'' e))
           | (m', Panic s) \<Rightarrow> Some (m', Panic s)
      else Some (m, Ok ())) = Some y"
    obtain m1 r where s: "shrink h m = (m1, r)" by (cases "shrink h m")
    show "?A h \<longrightarrow> P m y"
    proof
      assume A: "?A h"
      show "P m y"
      proof (cases "size_m m < shrinkBelowSize m \<and> 0 < height m")
        case False
        with body have "y = (m, Ok ())" by auto
        with A False show ?thesis by blast
      next
        case True
        show ?thesis
        proof (cases r)
          case (Ok u)
          with True s body have "f h m1 = Some y" by simp
          from IH[OF this] A have "P m1 y" by blast
          with A True s Ok show ?thesis by blast
        next
          case (Err e0)
          with True s body have "y = (m1, Err (Wrap ''shrink'' e0))" by auto
          with A True s Err show ?thesis by blast
        next
          case (Panic p)
          with True s body have "y = (m1, Panic p)" by auto
          with A True s Panic show ?thesis by blast
        qed
      qed
    qed
  qed
  with stop err pan step show ?thesis by blast
qed

lemma grow_loop_induct:
  fixes h :: "('k, 'v) helpers"
  assumes run: "grow_loop h n0 m = Some y"
    and stop: "\<And>m. \<not> growAfterSize m \<le> size_m m \<Longrightarrow> P m (m, Ok ())"
    and cerr: "\<And>m e. growAfterSize m \<le> size_m m
                \<Longrightarrow> canGrow h n0 (height m) (keyLayer m) (branchFactor m) = Err e
                \<Longrightarrow> P m (m, Err (Wrap ''canGrow'' e))"
    and cpan: "\<And>m s. growAfterSize m \<le> size_m m
                \<Longrightarrow> canGrow h n0 (height m) (keyLayer m) (branchFactor m) = Panic s
                \<Longrightarrow> P m (m, Panic s)"
    and cno: "\<And>m. growAfterSize m \<le> size_m m
                \<Longrightarrow> canGrow h n0 (height m) (keyLayer m) (branchFactor m) = Ok False
                \<Longrightarrow> P m (m, Ok ())"
    and gerr: "\<And>m m1 e. growAfterSize m \<le> size_m m
                \<Longrightarrow> canGrow h n0 (height m) (keyLayer m) (branchFactor m) = Ok True
                \<Longrightarrow> grow h m = (m1, Err e) \<Longrightarrow> P m (m1, Err (Wrap ''grow'' e))"
    and gpan: "\<And>m m1 s. growAfterSize m \<le> size_m m
                \<Longrightarrow> canGrow h n0 (height m) (keyLayer m) (branchFactor m) = Ok True
                \<Longrightarrow> grow h m = (m1, Panic s) \<Longrightarrow> P m (m1, Panic s)"
    and step: "\<And>m m1 u y. growAfterSize m \<le> size_m m
                \<Longrightarrow> canGrow h n0 (height m) (keyLayer m) (branchFactor m) = Ok True
                \<Longrightarrow> grow h m = (m1, Ok u) \<Longrightarrow> P m1 y \<Longrightarrow> P m y"
  shows "P m y"
proof -
  have "h' = h \<and> n0' = n0 \<longrightarrow> P m y" if run': "grow_loop h' n0' m = Some y" for h' n0'
  proof (rule grow_loop.raw_induct[where P = "\<lambda>h' n0' m y. h' = h \<and> n0' = n0 \<longrightarrow> P m y",
        OF _ run'])
    fix f :: "('k, 'v) helpers \<Rightarrow> ('k, 'v) mastNode \<Rightarrow> ('k, 'v) mast
                \<Rightarrow> (('k, 'v) mast \<times> unit result) option"
      and h' :: "('k, 'v) helpers" and n0' :: "('k, 'v) mastNode" and m :: "('k, 'v) mast" and y
    assume IH: "\<And>h' n0' m y. f h' n0' m = Some y \<Longrightarrow> h' = h \<and> n0' = n0 \<longrightarrow> P m y"
    assume body: "(if growAfterSize m \<le> size_m m
      then case canGrow h' n0' (height m) (keyLayer m) (branchFactor m) of
             Ok cg \<Rightarrow>
               if \<not> cg then Some (m, Ok ())
               else (case grow h' m of (m', Ok u) \<Rightarrow> f h' n0' m'
                     | (m', Err e) \<Rightarrow> Some (m', Err (Wrap ''grow'' e))
                     | (m', Panic s) \<Rightarrow> Some (m', Panic s))
           | Err e \<Rightarrow> Some (m, Err (Wrap ''canGrow'' e))
           | Panic s \<Rightarrow> Some (m, Panic s)
      else Some (m, Ok ())) = Some y"
    show "h' = h \<and> n0' = n0 \<longrightarrow> P m y"
    proof
      assume eq: "h' = h \<and> n0' = n0"
      obtain m1 r where g: "grow h m = (m1, r)" by (cases "grow h m")
      show "P m y"
      proof (cases "growAfterSize m \<le> size_m m")
        case False
        with body have "y = (m, Ok ())" by simp
        with stop[OF False] show ?thesis by simp
      next
        case True
        show ?thesis
        proof (cases "canGrow h n0 (height m) (keyLayer m) (branchFactor m)")
          case (Err e0)
          with True body eq have "y = (m, Err (Wrap ''canGrow'' e0))" by simp
          with cerr[OF True Err] show ?thesis by simp
        next
          case (Panic p)
          with True body eq have "y = (m, Panic p)" by simp
          with cpan[OF True Panic] show ?thesis by simp
        next
          case (Ok cg)
          show ?thesis
          proof (cases cg)
            case False
            with True Ok body eq have "y = (m, Ok ())" by simp
            with cno[OF True] Ok False show ?thesis by simp
          next
            case cgT: True
            from Ok cgT have cg: "canGrow h n0 (height m) (keyLayer m) (branchFactor m) = Ok True"
              by simp
            show ?thesis
            proof (cases r)
              case r: (Ok u)
              with True cg g body eq have "f h n0 m1 = Some y" by simp
              from IH[OF this] have "P m1 y" by simp
              from step[OF True cg _ this] g r show ?thesis by simp
            next
              case r: (Err e0)
              with True cg g body eq have "y = (m1, Err (Wrap ''grow'' e0))" by simp
              with gerr[OF True cg] g r show ?thesis by simp
            next
              case r: (Panic p)
              with True cg g body eq have "y = (m1, Panic p)" by simp
              with gpan[OF True cg] g r show ?thesis by simp
            qed
          qed
        qed
      qed
    qed
  qed
  from this[OF run] show ?thesis by simp
qed

lemma shrink_loop_Err:
  assumes "shrink_loop h m = Some (m', Err e)"
  shows "\<exists>e'. e = Wrap ''shrink'' e'"
proof -
  have "\<forall>m' e. y = (m', Err e) \<longrightarrow> (\<exists>e'. e = Wrap ''shrink'' e')"
    if "shrink_loop h m = Some y" for y
    using that by (rule shrink_loop_induct) auto
  from this[OF assms] show ?thesis by simp
qed

lemma grow_loop_Err:
  assumes "grow_loop h n0 m = Some (m', Err e)"
  shows "\<exists>e'. e = Wrap ''canGrow'' e' \<or> e = Wrap ''grow'' e'"
proof -
  have "\<forall>m' e. y = (m', Err e) \<longrightarrow> (\<exists>e'. e = Wrap ''canGrow'' e' \<or> e = Wrap ''grow'' e')"
    if "grow_loop h n0 m = Some y" for y
    using that by (rule grow_loop_induct) auto
  from this[OF assms] show ?thesis by simp
qed

lemma grow_loop_exit:
  assumes "grow_loop h n0 m = Some (m', Ok u)"
  shows "size_m m' < growAfterSize m'
     \<or> canGrow h n0 (height m') (keyLayer m') (branchFactor m') = Ok False"
proof -
  have "\<forall>m' u. y = (m', Ok u) \<longrightarrow> size_m m' < growAfterSize m'
             \<or> canGrow h n0 (height m') (keyLayer m') (branchFactor m') = Ok False"
    if "grow_loop h n0 m = Some y" for y
    using that by (rule grow_loop_induct) auto
  from this[OF assms] show ?thesis by simp
qed

lemma grow_loop_size:
  assumes "\<forall>m0 m1 r. grow h m0 = (m1, r) \<longrightarrow> size_m m1 = size_m m0"
    and "grow_loop h n0 m = Some (m', r)"
  shows "size_m m' = size_m m"
proof -
  have "size_m (fst y) = size_m m" if "grow_loop h n0 m = Some y" for y
    using that by (rule grow_loop_induct) (use assms(1) in auto)
  from this[OF assms(2)] show ?thesis by simp
qed

lemma Insert_plan_unfold:
  assumes "keyLayer m key (branchFactor m) = Ok kl" and "load m (root m) = Ok n0"
    and "findNode h m n0 key (initOptions m kl True) = Ok (n, i, options)"
  shows "Insert_plan h m key val =
    (if targetLayer options \<noteq> currentHeight options
     then Panic ''dunno why we did not land in the right layer''
     else
       bindR (if i < length (Key n)
              then wrapErr ''keyCompare'' (keyOrder m (Key n ! i) key)
              else Ok 1) (\<lambda>cmp.
       if i < length (Key n) \<and> cmp = 0
       then bindR (index (Value n) i) (\<lambda>vi.
              bindR (interfaceEq (valueEq h) vi val) (\<lambda>same.
              if same then Ok Unchanged
              else bindR (setLastNode (path options)
                           (MastNode (Key n) ((Value n)[i := val]) (Link n))) (\<lambda>p.
                   Ok (Replaced p))))
       else bindR (Insert_new h m key val n i options) (\<lambda>p. Ok (Added p))))"
  using assms by (simp add: Insert_plan_def)

lemma Insert_new_Ok:
  assumes "Insert_new h m key val n i options = Ok p"
  shows "\<exists>l r. setLastNode (path options)
            (MastNode (take i (Key n) @ [key] @ drop i (Key n))
                      (take i (Value n) @ [val] @ drop i (Value n))
                      (take i (Link n) @ [l, r] @ drop (i + 1) (Link n))) = Ok p"
  using assms
  by (auto simp: Insert_new_def bindR_Ok_iff split: if_splits prod.splits)

lemma Insert_Ok_cases:
  assumes "Insert h m key val = Some (m', Ok ())"
  shows "(Insert_plan h m key val = Ok Unchanged \<and> m' = m)
     \<or> (\<exists>p. Insert_plan h m key val = Ok (Replaced p) \<and> savePathForRoot h m p = (m', Ok ()))
     \<or> (\<exists>p m1 m2. Insert_plan h m key val = Ok (Added p)
           \<and> savePathForRoot h m p = (m1, Ok ())
           \<and> grow_loop h (node (p ! 0)) m1 = Some (m2, Ok ())
           \<and> m' = m2\<lparr>size_m := size_m m2 + 1\<rparr>)"
proof (cases "Insert_plan h m key val")
  case (Err e)
  with assms show ?thesis by (simp add: Insert_def)
next
  case (Panic s)
  with assms show ?thesis by (simp add: Insert_def)
next
  case (Ok plan)
  show ?thesis
  proof (cases plan)
    case Unchanged
    with assms Ok show ?thesis by (simp add: Insert_def)
  next
    case (Replaced p)
    with assms Ok show ?thesis by (simp add: Insert_def)
  next
    case (Added p)
    obtain m1 r where s: "savePathForRoot h m p = (m1, r)" by (cases "savePathForRoot h m p")
    from assms Ok Added s obtain u where r: "r = Ok u"
      by (cases r) (simp_all add: Insert_def)
    from assms Ok Added s r obtain m2 where
      "grow_loop h (node (p ! 0)) m1 = Some (m2, Ok ())" "m' = m2\<lparr>size_m := size_m m2 + 1\<rparr>"
      by (auto simp: Insert_def split: option.splits prod.splits result.splits)
    with Ok Added s r show ?thesis by simp
  qed
qed

lemma Insert_not_found:
  assumes kl: "keyLayer m key (branchFactor m) = Ok kl"
    and ld: "load m (root m) = Ok n0"
    and fn: "findNode h m n0 key (initOptions m kl True) = Ok (n, i, options)"
    and nf: "\<not> (i < length (Key n) \<and> keyOrder m (Key n ! i) key = Ok 0)"
    and ok: "Insert h m key val = Some (m', Ok ())"
  shows "\<exists>p m1 m2. Insert_plan h m key val = Ok (Added p)
      \<and> Insert_new h m key val n i options = Ok p
      \<and> savePathForRoot h m p = (m1, Ok ())
      \<and> grow_loop h (node (p ! 0)) m1 = Some (m2, Ok ())
      \<and> m' = m2\<lparr>size_m := size_m m2 + 1\<rparr>"
proof -
  note pl = Insert_plan_unfold[OF kl ld fn, of val]
  note cs = Insert_Ok_cases[OF ok]
  from cs obtain plan where plan: "Insert_plan h m key val = Ok plan" by auto
  note e = plan[unfolded pl]
  from e have lay: "targetLayer options = currentHeight options"
    by (auto split: if_splits)
  from e lay nf obtain p where
    new: "Insert_new h m key val n i options = Ok p" and added: "plan = Added p"
    by (auto simp: bindR_Ok_iff wrapErr_Ok_iff split: if_splits)
  from cs plan added obtain m1 m2 where
    "savePathForRoot h m p = (m1, Ok ())"
    "grow_loop h (node (p ! 0)) m1 = Some (m2, Ok ())"
    "m' = m2\<lparr>size_m := size_m m2 + 1\<rparr>"
    by auto
  with plan added new show ?thesis by blast
qed

lemma grow_loop_skip:
  assumes "size_m m < growAfterSize m
     \<or> canGrow h n0 (height m) (keyLayer m) (branchFactor m) = Ok False"
  shows "grow_loop h n0 m = Some (m, Ok ())"
  using assms by (subst grow_loop.simps) auto

lemma Insert_found_unfold:
  assumes kl: "keyLayer m key (branchFactor m) = Ok kl"
    and ld: "load m (root m) = Ok n0"
    and fn: "findNode h m n0 key (initOptions m kl True) = Ok (n, i, options)"
    and lay: "targetLayer options = currentHeight options"
    and ik: "i < length (Key n)" and ko: "keyOrder m (Key n ! i) key = Ok 0"
    and iv: "i < length (Value n)"
  shows "Insert_plan h m key val =
    bindR (interfaceEq (valueEq h) (Value n ! i) val) (\<lambda>same.
      if same then Ok Unchanged
      else bindR (setLastNode (path options)
                   (MastNode (Key n) ((Value n)[i := val]) (Link n))) (\<lambda>p.
           Ok (Replaced p)))"
  unfolding Insert_plan_unfold[OF kl ld fn] using lay ik ko iv by (simp add: index_def)

lemma Insert_absent_unfold:
  assumes kl: "keyLayer m key (branchFactor m) = Ok kl"
    and ld: "load m (root m) = Ok n0"
    and fn: "findNode h m n0 key (initOptions m kl True) = Ok (n, i, options)"
    and lay: "targetLayer options = currentHeight options"
    and ab: "i < length (Key n) \<longrightarrow> (\<exists>c. keyOrder m (Key n ! i) key = Ok c \<and> c \<noteq> 0)"
  shows "Insert_plan h m key val =
    bindR (Insert_new h m key val n i options) (\<lambda>p. Ok (Added p))"
  unfolding Insert_plan_unfold[OF kl ld fn] using lay ab by auto

text \<open>
  \<^bold>\<open>C2\<close>, as the code has it. Let \<^verbatim>\<open>savePathForRoot\<close> and \<^verbatim>\<open>grow\<close> leave the size of the
  tree alone, let the root of the tree load and let the search of \<^verbatim>\<open>Insert\<close> return
  node \<open>n\<close> and index \<open>i\<close>. \<^verbatim>\<open>Insert\<close> panics when the search did not end in the layer
  of the key. Otherwise:
  \<^item> if the key at \<open>i\<close> is the given key, the stored value is compared with the given
    one by the \<^verbatim>\<open>==\<close> of Go on interface values. When they compare equal, \<^verbatim>\<open>Insert\<close>
    returns without an error and the tree is unchanged. When they compare
    different, the path is saved with the value at \<open>i\<close> replaced in \<open>n\<close>, \<^verbatim>\<open>Insert\<close>
    returns what the saving returns, and the size is unchanged. When the
    comparison panics, so does \<^verbatim>\<open>Insert\<close>;
  \<^item> if the key is absent (\<open>i\<close> is past the last key, or the key at \<open>i\<close> compares
    different), and the node with the key and the value put in at \<open>i\<close> is built and
    the path saved, then \<^verbatim>\<open>Insert\<close> returns without an error as soon as the loop
    that grows the tree returns without one, which it does at once below
    \<^verbatim>\<open>growAfterSize\<close> or when \<^verbatim>\<open>canGrow\<close> says no. The size is then larger by one in
    \<^verbatim>\<open>uint64\<close>: it wraps to 0 at \<open>2 ^ 64 - 1\<close>;
  \<^item> an \<^verbatim>\<open>Insert\<close> that returns without an error is in one of these three cases.
\<close>

theorem Insert_cases:
  assumes save: "\<forall>m0 p m1 r. savePathForRoot h m0 p = (m1, r) \<longrightarrow> size_m m1 = size_m m0"
    and gr: "\<forall>m0 m1 r. grow h m0 = (m1, r) \<longrightarrow> size_m m1 = size_m m0"
    and kl: "keyLayer m key (branchFactor m) = Ok kl"
    and ld: "load m (root m) = Ok n0"
    and fn: "findNode h m n0 key (initOptions m kl True) = Ok (n, i, options)"
  shows "(targetLayer options \<noteq> currentHeight options \<longrightarrow>
            Insert h m key val
              = Some (m, Panic ''dunno why we did not land in the right layer''))
       \<and> (targetLayer options = currentHeight options
            \<and> i < length (Key n) \<and> keyOrder m (Key n ! i) key = Ok 0 \<and> i < length (Value n) \<longrightarrow>
            (interfaceEq (valueEq h) (Value n ! i) val = Ok True \<longrightarrow>
               Insert h m key val = Some (m, Ok ()))
          \<and> (interfaceEq (valueEq h) (Value n ! i) val = Ok False \<longrightarrow>
               (\<forall>p. setLastNode (path options)
                       (MastNode (Key n) ((Value n)[i := val]) (Link n)) = Ok p \<longrightarrow>
                    Insert h m key val = Some (savePathForRoot h m p)
                  \<and> size_m (fst (savePathForRoot h m p)) = size_m m))
          \<and> (\<forall>s. interfaceEq (valueEq h) (Value n ! i) val = Panic s \<longrightarrow>
               Insert h m key val = Some (m, Panic s)))
       \<and> (targetLayer options = currentHeight options
            \<and> (i < length (Key n) \<longrightarrow> (\<exists>c. keyOrder m (Key n ! i) key = Ok c \<and> c \<noteq> 0)) \<longrightarrow>
            (\<forall>p m1. Insert_new h m key val n i options = Ok p
                  \<and> savePathForRoot h m p = (m1, Ok ()) \<longrightarrow>
                (\<exists>l r. setLastNode (path options)
                          (MastNode (take i (Key n) @ [key] @ drop i (Key n))
                                    (take i (Value n) @ [val] @ drop i (Value n))
                                    (take i (Link n) @ [l, r] @ drop (i + 1) (Link n))) = Ok p)
              \<and> (size_m m1 < growAfterSize m1
                  \<or> canGrow h (node (p ! 0)) (height m1) (keyLayer m1) (branchFactor m1) = Ok False \<longrightarrow>
                   Insert h m key val = Some (m1\<lparr>size_m := size_m m + 1\<rparr>, Ok ()))
              \<and> (\<forall>m2. grow_loop h (node (p ! 0)) m1 = Some (m2, Ok ()) \<longrightarrow>
                   Insert h m key val = Some (m2\<lparr>size_m := size_m m + 1\<rparr>, Ok ())
                 \<and> unat (size_m (m2\<lparr>size_m := size_m m + 1\<rparr>))
                     = (unat (size_m m) + 1) mod 2 ^ 64)))
       \<and> (\<forall>m'. Insert h m key val = Some (m', Ok ()) \<longrightarrow>
            targetLayer options = currentHeight options
          \<and> ((i < length (Key n) \<and> keyOrder m (Key n ! i) key = Ok 0 \<and> i < length (Value n)
                \<and> interfaceEq (valueEq h) (Value n ! i) val = Ok True \<and> m' = m)
             \<or> (i < length (Key n) \<and> keyOrder m (Key n ! i) key = Ok 0 \<and> i < length (Value n)
                \<and> interfaceEq (valueEq h) (Value n ! i) val = Ok False
                \<and> size_m m' = size_m m
                \<and> (\<exists>p. setLastNode (path options)
                          (MastNode (Key n) ((Value n)[i := val]) (Link n)) = Ok p
                      \<and> savePathForRoot h m p = (m', Ok ())))
             \<or> ((i < length (Key n) \<longrightarrow> (\<exists>c. keyOrder m (Key n ! i) key = Ok c \<and> c \<noteq> 0))
                \<and> size_m m' = size_m m + 1
                \<and> (\<exists>p l r m1 m2.
                      setLastNode (path options)
                        (MastNode (take i (Key n) @ [key] @ drop i (Key n))
                                  (take i (Value n) @ [val] @ drop i (Value n))
                                  (take i (Link n) @ [l, r] @ drop (i + 1) (Link n))) = Ok p
                    \<and> savePathForRoot h m p = (m1, Ok ())
                    \<and> grow_loop h (node (p ! 0)) m1 = Some (m2, Ok ())
                    \<and> m' = m2\<lparr>size_m := size_m m2 + 1\<rparr>))))"
proof -
  note pl = Insert_plan_unfold[OF kl ld fn, of val]
  have A: "Insert h m key val = Some (m, Panic ''dunno why we did not land in the right layer'')"
    if "targetLayer options \<noteq> currentHeight options"
    using that by (simp add: Insert_def pl)
  have B1: "Insert h m key val = Some (m, Ok ())"
    if "targetLayer options = currentHeight options" "i < length (Key n)"
      "keyOrder m (Key n ! i) key = Ok 0" "i < length (Value n)"
      "interfaceEq (valueEq h) (Value n ! i) val = Ok True"
    using that(5) by (simp add: Insert_def Insert_found_unfold[OF kl ld fn that(1-4)])
  have B2: "Insert h m key val = Some (savePathForRoot h m p)
          \<and> size_m (fst (savePathForRoot h m p)) = size_m m"
    if "targetLayer options = currentHeight options" "i < length (Key n)"
      "keyOrder m (Key n ! i) key = Ok 0" "i < length (Value n)"
      "interfaceEq (valueEq h) (Value n ! i) val = Ok False"
      "setLastNode (path options) (MastNode (Key n) ((Value n)[i := val]) (Link n)) = Ok p"
    for p
  proof -
    have "Insert h m key val = Some (savePathForRoot h m p)"
      using that(5,6) by (simp add: Insert_def Insert_found_unfold[OF kl ld fn that(1-4)])
    moreover have "size_m (fst (savePathForRoot h m p)) = size_m m"
      using save by (cases "savePathForRoot h m p") auto
    ultimately show ?thesis by simp
  qed
  have B3: "Insert h m key val = Some (m, Panic s)"
    if "targetLayer options = currentHeight options" "i < length (Key n)"
      "keyOrder m (Key n ! i) key = Ok 0" "i < length (Value n)"
      "interfaceEq (valueEq h) (Value n ! i) val = Panic s"
    for s
    using that(5) by (simp add: Insert_def Insert_found_unfold[OF kl ld fn that(1-4)])
  have C: "(\<exists>l r. setLastNode (path options)
                          (MastNode (take i (Key n) @ [key] @ drop i (Key n))
                                    (take i (Value n) @ [val] @ drop i (Value n))
                                    (take i (Link n) @ [l, r] @ drop (i + 1) (Link n))) = Ok p)
              \<and> (size_m m1 < growAfterSize m1
                  \<or> canGrow h (node (p ! 0)) (height m1) (keyLayer m1) (branchFactor m1) = Ok False \<longrightarrow>
                   Insert h m key val = Some (m1\<lparr>size_m := size_m m + 1\<rparr>, Ok ()))
              \<and> (\<forall>m2. grow_loop h (node (p ! 0)) m1 = Some (m2, Ok ()) \<longrightarrow>
                   Insert h m key val = Some (m2\<lparr>size_m := size_m m + 1\<rparr>, Ok ())
                 \<and> unat (size_m (m2\<lparr>size_m := size_m m + 1\<rparr>))
                     = (unat (size_m m) + 1) mod 2 ^ 64)"
    if lay: "targetLayer options = currentHeight options"
      and ab: "i < length (Key n) \<longrightarrow> (\<exists>c. keyOrder m (Key n ! i) key = Ok c \<and> c \<noteq> 0)"
      and new: "Insert_new h m key val n i options = Ok p"
      and sv: "savePathForRoot h m p = (m1, Ok ())"
    for p m1
  proof -
    have plan: "Insert_plan h m key val = Ok (Added p)"
      by (simp add: Insert_absent_unfold[OF kl ld fn lay ab] new)
    from save sv have s1: "size_m m1 = size_m m" by blast
    have g: "Insert h m key val = Some (m2\<lparr>size_m := size_m m + 1\<rparr>, Ok ())"
      if gl: "grow_loop h (node (p ! 0)) m1 = Some (m2, Ok ())" for m2
    proof -
      from grow_loop_size[OF gr gl] s1 have "size_m m2 = size_m m" by simp
      then show ?thesis by (simp add: Insert_def plan sv gl)
    qed
    have u: "unat (size_m m + 1) = (unat (size_m m) + 1) mod 2 ^ 64"
      by (simp add: unat_word_ariths)
    from g[OF grow_loop_skip] g u Insert_new_Ok[OF new] show ?thesis by simp
  qed
  have D: "targetLayer options = currentHeight options
          \<and> ((i < length (Key n) \<and> keyOrder m (Key n ! i) key = Ok 0 \<and> i < length (Value n)
                \<and> interfaceEq (valueEq h) (Value n ! i) val = Ok True \<and> m' = m)
             \<or> (i < length (Key n) \<and> keyOrder m (Key n ! i) key = Ok 0 \<and> i < length (Value n)
                \<and> interfaceEq (valueEq h) (Value n ! i) val = Ok False
                \<and> size_m m' = size_m m
                \<and> (\<exists>p. setLastNode (path options)
                          (MastNode (Key n) ((Value n)[i := val]) (Link n)) = Ok p
                      \<and> savePathForRoot h m p = (m', Ok ())))
             \<or> ((i < length (Key n) \<longrightarrow> (\<exists>c. keyOrder m (Key n ! i) key = Ok c \<and> c \<noteq> 0))
                \<and> size_m m' = size_m m + 1
                \<and> (\<exists>p l r m1 m2.
                      setLastNode (path options)
                        (MastNode (take i (Key n) @ [key] @ drop i (Key n))
                                  (take i (Value n) @ [val] @ drop i (Value n))
                                  (take i (Link n) @ [l, r] @ drop (i + 1) (Link n))) = Ok p
                    \<and> savePathForRoot h m p = (m1, Ok ())
                    \<and> grow_loop h (node (p ! 0)) m1 = Some (m2, Ok ())
                    \<and> m' = m2\<lparr>size_m := size_m m2 + 1\<rparr>)))"
    if ok: "Insert h m key val = Some (m', Ok ())" for m'
  proof -
    note cs = Insert_Ok_cases[OF ok]
    from cs obtain plan where plan: "Insert_plan h m key val = Ok plan" by auto
    note e = plan[unfolded pl]
    from e have lay: "targetLayer options = currentHeight options"
      by (auto split: if_splits)
    show ?thesis
    proof (cases "i < length (Key n) \<and> keyOrder m (Key n ! i) key = Ok 0")
      case True
      then have ik: "i < length (Key n)" and ko: "keyOrder m (Key n ! i) key = Ok 0"
        by simp_all
      from e lay ik ko have iv: "i < length (Value n)"
        by (auto simp: index_def split: if_splits)
      note f = plan[unfolded Insert_found_unfold[OF kl ld fn lay ik ko iv]]
      from f obtain b where b: "interfaceEq (valueEq h) (Value n ! i) val = Ok b"
        by (auto simp: bindR_Ok_iff)
      show ?thesis
      proof (cases b)
        case True
        with f b have "plan = Unchanged" by simp
        with cs plan have "m' = m" by auto
        with lay ik ko iv b True show ?thesis by simp
      next
        case False
        with f b obtain p where
          p: "setLastNode (path options) (MastNode (Key n) ((Value n)[i := val]) (Link n)) = Ok p"
          and r: "plan = Replaced p"
          by (auto simp: bindR_Ok_iff)
        from cs plan r have sv: "savePathForRoot h m p = (m', Ok ())" by auto
        with save have "size_m m' = size_m m" by blast
        with lay ik ko iv b False p sv show ?thesis by auto
      qed
    next
      case nf: False
      have ab: "i < length (Key n) \<longrightarrow> (\<exists>c. keyOrder m (Key n ! i) key = Ok c \<and> c \<noteq> 0)"
      proof
        assume ik: "i < length (Key n)"
        with e lay obtain c where c: "keyOrder m (Key n ! i) key = Ok c"
          by (cases "keyOrder m (Key n ! i) key") simp_all
        with nf ik show "\<exists>c. keyOrder m (Key n ! i) key = Ok c \<and> c \<noteq> 0" by auto
      qed
      from Insert_not_found[OF kl ld fn nf ok] obtain p m1 m2 where
        new: "Insert_new h m key val n i options = Ok p"
        and sv: "savePathForRoot h m p = (m1, Ok ())"
        and gl: "grow_loop h (node (p ! 0)) m1 = Some (m2, Ok ())"
        and m': "m' = m2\<lparr>size_m := size_m m2 + 1\<rparr>"
        by blast
      from grow_loop_size[OF gr gl] save sv have "size_m m2 = size_m m" by auto
      with m' have sz: "size_m m' = size_m m + 1" by simp
      from Insert_new_Ok[OF new] sv gl m'
      have "\<exists>p l r m1 m2.
                setLastNode (path options)
                  (MastNode (take i (Key n) @ [key] @ drop i (Key n))
                            (take i (Value n) @ [val] @ drop i (Value n))
                            (take i (Link n) @ [l, r] @ drop (i + 1) (Link n))) = Ok p
              \<and> savePathForRoot h m p = (m1, Ok ())
              \<and> grow_loop h (node (p ! 0)) m1 = Some (m2, Ok ())
              \<and> m' = m2\<lparr>size_m := size_m m2 + 1\<rparr>"
        by blast
      with lay ab sz show ?thesis by blast
    qed
  qed
  show ?thesis
    apply (intro conjI impI allI)
    subgoal by (rule A)
    subgoal by (rule B1; simp)
    subgoal by (rule B2[THEN conjunct1]; simp)
    subgoal by (rule B2[THEN conjunct2]; simp)
    subgoal by (rule B3; simp)
    subgoal by (rule C[THEN conjunct1]; simp)
    subgoal by (rule C[THEN conjunct2, THEN conjunct1, rule_format]; simp)
    subgoal by (rule C[THEN conjunct2, THEN conjunct2, rule_format, THEN conjunct1]; simp)
    subgoal by (rule C[THEN conjunct2, THEN conjunct2, rule_format, THEN conjunct2]; simp)
    subgoal by (rule D[THEN conjunct1])
    subgoal by (rule D[THEN conjunct2])
    done
qed

lemmas insert_defs = Insert_def Insert_plan_def Insert_new_def initOptions_def uint8min_def
  index_def setLastNode_def

lemma fx_savePathForRoot_size:
  "\<forall>m0 p m1 r. savePathForRoot fx m0 p = (m1, r) \<longrightarrow> size_m m1 = size_m m0"
  by (auto simp: fx_def fx_savePathForRoot_def split: list.splits)

lemma fx_grow_size: "\<forall>m0 m1 r. grow fx m0 = (m1, r) \<longrightarrow> size_m m1 = size_m m0"
  by (simp add: fx_def)

text \<open>
  On the flat instance, whose values are compared by equality, with the tree of
  the entries 1 (value 3) and 3 (nil value): the stored value again, another
  value for the key 1, and the new key 2, below \<^verbatim>\<open>growAfterSize\<close>.
\<close>

theorem Insert_cases_witness:
  "Insert fx (fx_tree (inline (MastNode [1, 3] [Some 3, None] [nil, nil, nil])) 2 0 1 16) 1 (Some 3)
     = Some (fx_tree (inline (MastNode [1, 3] [Some 3, None] [nil, nil, nil])) 2 0 1 16, Ok ())
   \<and> Insert fx (fx_tree (inline (MastNode [1, 3] [Some 3, None] [nil, nil, nil])) 2 0 1 16) 1 (Some 2)
     = Some (fx_tree (inline (MastNode [1, 3] [Some 2, None] [nil, nil, nil])) 2 0 1 16, Ok ())
   \<and> Insert fx (fx_tree (inline (MastNode [1, 3] [Some 3, None] [nil, nil, nil])) 2 0 1 16) 2 (Some 1)
     = Some (fx_tree (inline (MastNode [1, 2, 3] [Some 3, Some 1, None] [nil, nil, nil, nil])) 3 0 1 16,
             Ok ())
   \<and> size_m (fx_tree (inline (MastNode [1, 2, 3] [Some 3, Some 1, None] [nil, nil, nil, nil])) 3 0 1 16)
     = size_m (fx_tree (inline (MastNode [1, 3] [Some 3, None] [nil, nil, nil])) 2 0 1 16) + 1"
proof -
  let ?n = "MastNode [1, 3] [Some 3, None] [nil, nil, nil] :: (nat, nat) mastNode"
  let ?n2 = "MastNode [1, 3] [Some 2, None] [nil, nil, nil] :: (nat, nat) mastNode"
  let ?n3 = "MastNode [1, 2, 3] [Some 3, Some 1, None] [nil, nil, nil, nil] :: (nat, nat) mastNode"
  let ?m = "fx_tree (inline ?n) 2 0 1 16"
  let ?m3 = "fx_tree (inline ?n3) 3 0 1 16"
  let ?o1 = "(initOptions ?m 0 True)\<lparr>path := [\<lparr>node = ?n, linkIndex = 0\<rparr>]\<rparr>"
  let ?o2 = "(initOptions ?m 0 True)\<lparr>path := [\<lparr>node = ?n, linkIndex = 1\<rparr>]\<rparr>"
  have ld: "load ?m (root ?m) = Ok ?n" by (simp add: fx_defs)
  have kl1: "keyLayer ?m 1 (branchFactor ?m) = Ok 0" by (simp add: fx_defs)
  have fn1: "findNode fx ?m ?n 1 (initOptions ?m 0 True) = Ok (?n, 0, ?o1)"
    by (simp add: initOptions_def uint8min_def fx_defs)
  have found: "targetLayer ?o1 = currentHeight ?o1
      \<and> 0 < length (Key ?n) \<and> keyOrder ?m (Key ?n ! 0) 1 = Ok 0 \<and> 0 < length (Value ?n)"
    by (simp add: initOptions_def uint8min_def fx_tree_def fx_order_def)
  note same = Insert_cases[OF fx_savePathForRoot_size fx_grow_size kl1 ld fn1,
      where val = "Some 3", THEN conjunct2, THEN conjunct1, rule_format, OF found,
      THEN conjunct1, rule_format]
  have 1: "Insert fx ?m 1 (Some 3) = Some (?m, Ok ())"
    by (rule same) (simp add: fx_def)
  note other = Insert_cases[OF fx_savePathForRoot_size fx_grow_size kl1 ld fn1,
      where val = "Some 2", THEN conjunct2, THEN conjunct1, rule_format, OF found,
      THEN conjunct2, THEN conjunct1, rule_format, THEN conjunct1]
  have "Insert fx ?m 1 (Some 2)
      = Some (savePathForRoot fx ?m [\<lparr>node = ?n2, linkIndex = 0\<rparr>])"
    by (rule other) (simp_all add: fx_def setLastNode_def)
  then have 2: "Insert fx ?m 1 (Some 2) = Some (fx_tree (inline ?n2) 2 0 1 16, Ok ())"
    by (simp add: fx_defs)
  have kl2: "keyLayer ?m 2 (branchFactor ?m) = Ok 0" by (simp add: fx_defs)
  have fn2: "findNode fx ?m ?n 2 (initOptions ?m 0 True) = Ok (?n, 1, ?o2)"
    by (simp add: initOptions_def uint8min_def fx_defs)
  have absent: "targetLayer ?o2 = currentHeight ?o2
      \<and> (1 < length (Key ?n) \<longrightarrow> (\<exists>c. keyOrder ?m (Key ?n ! 1) 2 = Ok c \<and> c \<noteq> 0))"
    by (simp add: initOptions_def uint8min_def fx_tree_def fx_order_def)
  have new: "Insert_new fx ?m 2 (Some 1) ?n 1 ?o2 = Ok [\<lparr>node = ?n3, linkIndex = 1\<rparr>]
      \<and> savePathForRoot fx ?m [\<lparr>node = ?n3, linkIndex = 1\<rparr>]
          = (fx_tree (inline ?n3) 2 0 1 16, Ok ())"
    by (simp add: Insert_new_def setLastNode_def fx_defs)
  note added = Insert_cases[OF fx_savePathForRoot_size fx_grow_size kl2 ld fn2,
      where val = "Some 1", THEN conjunct2, THEN conjunct2, THEN conjunct1, rule_format,
      OF absent new, THEN conjunct2, THEN conjunct1, rule_format]
  have "Insert fx ?m 2 (Some 1)
      = Some ((fx_tree (inline ?n3) 2 0 1 16)\<lparr>size_m := size_m ?m + 1\<rparr>, Ok ())"
    by (rule added) (simp add: fx_tree_def)
  then have 3: "Insert fx ?m 2 (Some 1) = Some (?m3, Ok ())"
    by (simp add: fx_tree_def)
  have 4: "size_m ?m3 = size_m ?m + 1" by (simp add: fx_tree_def)
  from 1 2 3 4 show ?thesis by simp
qed

text \<open>
  The claim as stated fails on three trees of the flat instance. On the tree with
  a nil root, which \<^verbatim>\<open>Delete\<close> and \<^verbatim>\<open>Get\<close> take for the empty tree, \<^verbatim>\<open>Insert\<close> panics:
  it neither replaces nor adds. With values of a type that is not comparable,
  \<^verbatim>\<open>Insert\<close> of the key 1 panics as well. On a tree whose size is \<open>2 ^ 64 - 1\<close>, the
  new key 2 is added and the size is 0.
\<close>

theorem Insert_panics_or_wraps:
  "Insert fx (fx_tree nil 0 0 1 16) 1 (Some 3)
     = Some (fx_tree nil 0 0 1 16, Panic ''nil pointer dereference'')
   \<and> Insert (fx\<lparr>valueEq := \<lambda>a b. None\<rparr>)
        (fx_tree (inline (MastNode [1, 3] [Some 3, None] [nil, nil, nil])) 2 0 1 16) 1 (Some 3)
     = Some (fx_tree (inline (MastNode [1, 3] [Some 3, None] [nil, nil, nil])) 2 0 1 16,
             Panic ''runtime error: comparing uncomparable type'')
   \<and> Insert fx (fx_tree (inline (MastNode [1, 3] [Some 3, None] [nil, nil, nil]))
                  18446744073709551615 0 1 16) 2 (Some 1)
     = Some (fx_tree (inline (MastNode [1, 2, 3] [Some 3, Some 1, None] [nil, nil, nil, nil]))
               0 0 1 16, Ok ())"
proof -
  let ?n = "MastNode [1, 3] [Some 3, None] [nil, nil, nil] :: (nat, nat) mastNode"
  have 1: "Insert fx (fx_tree nil 0 0 1 16) 1 (Some 3)
     = Some (fx_tree nil 0 0 1 16, Panic ''nil pointer dereference'')"
    by (simp add: insert_defs fx_defs)
  have 2: "Insert (fx\<lparr>valueEq := \<lambda>a b. None\<rparr>) (fx_tree (inline ?n) 2 0 1 16) 1 (Some 3)
     = Some (fx_tree (inline ?n) 2 0 1 16,
             Panic ''runtime error: comparing uncomparable type'')"
    by (simp add: insert_defs fx_defs)
  have 3: "Insert fx (fx_tree (inline ?n) 18446744073709551615 0 1 16) 2 (Some 1)
     = Some (fx_tree (inline (MastNode [1, 2, 3] [Some 3, Some 1, None] [nil, nil, nil, nil]))
               0 0 1 16, Ok ())"
    apply (simp add: insert_defs fx_defs)
    apply (subst grow_loop.simps)
    apply (simp add: fx_defs)
    done
  from 1 2 3 show ?thesis by simp
qed

text \<open>
  \<^bold>\<open>C4\<close>, as the code has it. When \<^verbatim>\<open>Insert\<close> adds a new entry, the loop that grows the
  tree runs first, on the size before the increment, and \<^verbatim>\<open>m.size++\<close> is the last
  statement. So on return the size less one is below \<^verbatim>\<open>growAfterSize\<close>, or
  \<^verbatim>\<open>canGrow\<close> has answered no for the node at the head of the saved path at the
  final height.
\<close>

theorem Insert_grows_before_counting:
  assumes "keyLayer m key (branchFactor m) = Ok kl"
    and "load m (root m) = Ok n0"
    and "findNode h m n0 key (initOptions m kl True) = Ok (n, i, options)"
    and "\<not> (i < length (Key n) \<and> keyOrder m (Key n ! i) key = Ok 0)"
    and "Insert h m key val = Some (m', Ok ())"
  shows "\<exists>p. Insert_plan h m key val = Ok (Added p)
      \<and> (size_m m' - 1 < growAfterSize m'
         \<or> canGrow h (node (p ! 0)) (height m') (keyLayer m') (branchFactor m') = Ok False)"
proof -
  from Insert_not_found[OF assms] obtain p m1 m2 where
    pl: "Insert_plan h m key val = Ok (Added p)"
    and gl: "grow_loop h (node (p ! 0)) m1 = Some (m2, Ok ())"
    and m': "m' = m2\<lparr>size_m := size_m m2 + 1\<rparr>"
    by blast
  from grow_loop_exit[OF gl] m'
  have "size_m m' - 1 < growAfterSize m'
         \<or> canGrow h (node (p ! 0)) (height m') (keyLayer m') (branchFactor m') = Ok False"
    by auto
  with pl show ?thesis by blast
qed

text \<open>On the flat instance: the new key 2 in the tree of two entries.\<close>

theorem Insert_grows_before_counting_witness:
  "Insert fx (fx_tree (inline (MastNode [1, 3] [Some 3, None] [nil, nil, nil])) 2 0 1 16) 2 (Some 1)
     = Some (fx_tree (inline (MastNode [1, 2, 3] [Some 3, Some 1, None] [nil, nil, nil, nil])) 3 0 1 16,
             Ok ())
   \<and> size_m (fx_tree (inline (MastNode [1, 2, 3] [Some 3, Some 1, None] [nil, nil, nil, nil])) 3 0 1 16) - 1
     < growAfterSize
         (fx_tree (inline (MastNode [1, 2, 3] [Some 3, Some 1, None] [nil, nil, nil, nil])) 3 0 1 16)"
proof -
  let ?n = "MastNode [1, 3] [Some 3, None] [nil, nil, nil] :: (nat, nat) mastNode"
  let ?m = "fx_tree (inline ?n) 2 0 1 16"
  let ?m3 = "fx_tree (inline (MastNode [1, 2, 3] [Some 3, Some 1, None] [nil, nil, nil, nil])) 3 0 1 16"
  have 3: "Insert fx ?m 2 (Some 1) = Some (?m3, Ok ())"
    apply (simp add: insert_defs fx_defs)
    apply (subst grow_loop.simps)
    apply simp
    done
  have kl: "keyLayer ?m 2 (branchFactor ?m) = Ok 0" by (simp add: fx_defs)
  have ld: "load ?m (root ?m) = Ok ?n" by (simp add: fx_defs)
  have fn: "findNode fx ?m ?n 2 (initOptions ?m 0 True)
      = Ok (?n, 1, (initOptions ?m 0 True)\<lparr>path := [\<lparr>node = ?n, linkIndex = 1\<rparr>]\<rparr>)"
    by (simp add: initOptions_def uint8min_def fx_defs)
  have nf: "\<not> (1 < length (Key ?n) \<and> keyOrder ?m (Key ?n ! 1) 2 = Ok 0)"
    by (simp add: fx_defs)
  from Insert_grows_before_counting[OF kl ld fn nf 3]
  have "size_m ?m3 - 1 < growAfterSize ?m3"
    by (auto simp: fx_defs insert_defs)
  with 3 show ?thesis by simp
qed

text \<open>
  The claim as stated fails on the tree of the entries 1 to 15 with branch factor
  16: the loop sees the size 15, the sixteenth key is added, and on return the size
  16 is not below \<^verbatim>\<open>growAfterSize\<close> while the root, which holds the key 16 of layer
  1 at height 0, can grow.
\<close>

theorem Insert_returns_at_threshold:
  "Insert fx
     (fx_tree (inline (MastNode [1, 2, 3, 4, 5, 6, 7, 8, 9, 10, 11, 12, 13, 14, 15]
         [None, None, None, None, None, None, None, None, None, None, None, None, None, None, None]
         [nil, nil, nil, nil, nil, nil, nil, nil, nil, nil, nil, nil, nil, nil, nil, nil]))
        15 0 1 16) 16 None
     = Some (fx_tree (inline (MastNode [1, 2, 3, 4, 5, 6, 7, 8, 9, 10, 11, 12, 13, 14, 15, 16]
         [None, None, None, None, None, None, None, None, None, None, None, None, None, None, None,
          None]
         [nil, nil, nil, nil, nil, nil, nil, nil, nil, nil, nil, nil, nil, nil, nil, nil, nil]))
        16 0 1 16, Ok ())
   \<and> \<not> size_m (fx_tree (inline (MastNode [1, 2, 3, 4, 5, 6, 7, 8, 9, 10, 11, 12, 13, 14, 15, 16]
         [None, None, None, None, None, None, None, None, None, None, None, None, None, None, None,
          None]
         [nil, nil, nil, nil, nil, nil, nil, nil, nil, nil, nil, nil, nil, nil, nil, nil, nil]))
        16 0 1 16)
       < growAfterSize (fx_tree (inline (MastNode [1, 2, 3, 4, 5, 6, 7, 8, 9, 10, 11, 12, 13, 14, 15, 16]
         [None, None, None, None, None, None, None, None, None, None, None, None, None, None, None,
          None]
         [nil, nil, nil, nil, nil, nil, nil, nil, nil, nil, nil, nil, nil, nil, nil, nil, nil]))
        16 0 1 16)
   \<and> canGrow fx (MastNode [1, 2, 3, 4, 5, 6, 7, 8, 9, 10, 11, 12, 13, 14, 15, 16]
         [None, None, None, None, None, None, None, None, None, None, None, None, None, None, None,
          None]
         [nil, nil, nil, nil, nil, nil, nil, nil, nil, nil, nil, nil, nil, nil, nil, nil, nil])
       0 fx_layer 16 = Ok True"
  apply (simp add: insert_defs fx_defs)
  apply (subst grow_loop.simps)
  apply simp
  done





lemmas delete_defs = Delete_def Delete_splice_def initOptions_def uint8min_def index_def
  setLastNode_def



lemma Insert_Err_cases:
  assumes "Insert h m key val = Some (m', Err e)"
  shows "m' = m
     \<or> (\<exists>p. Insert_plan h m key val = Ok (Replaced p) \<and> savePathForRoot h m p = (m', Err e))
     \<or> (\<exists>e'. e = Wrap ''save new root'' e' \<or> e = Wrap ''canGrow'' e' \<or> e = Wrap ''grow'' e')"
proof (cases "Insert_plan h m key val")
  case (Err e0)
  with assms show ?thesis by (simp add: Insert_def)
next
  case (Panic s)
  with assms show ?thesis by (simp add: Insert_def)
next
  case (Ok plan)
  show ?thesis
  proof (cases plan)
    case Unchanged
    with assms Ok show ?thesis by (simp add: Insert_def)
  next
    case (Replaced p)
    with assms Ok show ?thesis by (simp add: Insert_def)
  next
    case (Added p)
    obtain m1 r where s: "savePathForRoot h m p = (m1, r)" by (cases "savePathForRoot h m p")
    show ?thesis
    proof (cases r)
      case (Err e0)
      with assms Ok Added s show ?thesis by (auto simp: Insert_def)
    next
      case (Panic s0)
      with assms Ok Added s show ?thesis by (simp add: Insert_def)
    next
      case r: (Ok u)
      from assms Ok Added s r have "grow_loop h (node (p ! 0)) m1 = Some (m', Err e)"
        by (auto simp: Insert_def split: option.splits prod.splits result.splits)
      from grow_loop_Err[OF this] show ?thesis by blast
    qed
  qed
qed

lemma Delete_Err_cases:
  assumes "Delete h m key val = Some (m', Err e)"
  shows "m' = m \<or> (\<exists>e'. e = Wrap ''savePathForRoot'' e') \<or> (\<exists>e'. e = Wrap ''shrink'' e')"
proof (cases "root m = nil")
  case True
  with assms show ?thesis by (simp add: Delete_def)
next
  case nn: False
  show ?thesis
  proof (cases "Delete_splice h m key val")
    case (Err e0)
    with assms nn show ?thesis by (simp add: Delete_def)
  next
    case (Panic s)
    with assms nn show ?thesis by (simp add: Delete_def)
  next
    case (Ok p)
    obtain m1 r where s: "savePathForRoot h m p = (m1, r)" by (cases "savePathForRoot h m p")
    show ?thesis
    proof (cases r)
      case (Err e0)
      with assms nn Ok s show ?thesis by (auto simp: Delete_def)
    next
      case (Panic s0)
      with assms nn Ok s show ?thesis by (simp add: Delete_def)
    next
      case r: (Ok u)
      from assms nn Ok s r
      have "shrink_loop h (m1\<lparr>size_m := size_m m1 - 1\<rparr>) = Some (m', Err e)"
        by (simp add: Delete_def)
      from shrink_loop_Err[OF this] show ?thesis by blast
    qed
  qed
qed

text \<open>
  \<^bold>\<open>C1\<close>, as the code has it. An error of \<^verbatim>\<open>Delete\<close>, \<^verbatim>\<open>Insert\<close> or \<^verbatim>\<open>MakeRoot\<close> leaves
  the tree as it was before the call, unless it is an error of saving the path
  (\<^verbatim>\<open>savePathForRoot\<close>) or of the loop that follows it (\<^verbatim>\<open>shrink\<close> in \<^verbatim>\<open>Delete\<close>,
  \<^verbatim>\<open>canGrow\<close> and \<^verbatim>\<open>grow\<close> in \<^verbatim>\<open>Insert\<close>): those are returned with the tree as the
  failed call left it, after the new root was saved. \<^verbatim>\<open>Get\<close> and \<^verbatim>\<open>LoadMast\<close> assign no
  field of an existing tree, on any return.
\<close>

theorem error_leaves_tree_before_save:
  "(\<forall>m' e. Delete h m key val = Some (m', Err e) \<longrightarrow>
        m' = m \<or> (\<exists>e'. e = Wrap ''savePathForRoot'' e') \<or> (\<exists>e'. e = Wrap ''shrink'' e'))
   \<and> (\<forall>m' e. Insert h m key val = Some (m', Err e) \<longrightarrow>
        m' = m
      \<or> (\<exists>p. Insert_plan h m key val = Ok (Replaced p) \<and> savePathForRoot h m p = (m', Err e))
      \<or> (\<exists>e'. e = Wrap ''save new root'' e' \<or> e = Wrap ''canGrow'' e' \<or> e = Wrap ''grow'' e'))
   \<and> (\<forall>m' e. MakeRoot h m = (m', Err e) \<longrightarrow> m' = m)"
proof (intro conjI allI impI)
  fix m' e
  assume "Delete h m key val = Some (m', Err e)"
  from Delete_Err_cases[OF this]
  show "m' = m \<or> (\<exists>e'. e = Wrap ''savePathForRoot'' e') \<or> (\<exists>e'. e = Wrap ''shrink'' e')" .
next
  fix m' e
  assume "Insert h m key val = Some (m', Err e)"
  from Insert_Err_cases[OF this]
  show "m' = m
      \<or> (\<exists>p. Insert_plan h m key val = Ok (Replaced p) \<and> savePathForRoot h m p = (m', Err e))
      \<or> (\<exists>e'. e = Wrap ''save new root'' e' \<or> e = Wrap ''canGrow'' e' \<or> e = Wrap ''grow'' e')" .
next
  fix m' e
  assume "MakeRoot h m = (m', Err e)"
  then show "m' = m"
    by (auto simp: MakeRoot_def flush_def split: option.splits result.splits prod.splits)
qed

text \<open>
  On the flat instance: \<^verbatim>\<open>Delete\<close> of the absent key 2, \<^verbatim>\<open>Insert\<close> into the tree whose
  root is not in the store, and \<^verbatim>\<open>MakeRoot\<close> without a blob store return an error and
  the tree they were given.
\<close>

theorem error_leaves_tree_before_save_witness:
  "Delete fx (fx_tree (inline (MastNode [1, 3] [Some 3, None] [nil, nil, nil])) 2 0 1 16) 2 (Some 3)
     = Some (fx_tree (inline (MastNode [1, 3] [Some 3, None] [nil, nil, nil])) 2 0 1 16,
             Err KeyNotPresent)
   \<and> Insert fx (fx_tree (contentHash ''missing'') 2 0 1 16) 2 (Some 3)
     = Some (fx_tree (contentHash ''missing'') 2 0 1 16,
             Err (FailedLoading ''missing'' (External ''not found'')))
   \<and> MakeRoot fx ((fx_tree (inline (MastNode [1, 3] [Some 3, None] [nil, nil, nil])) 2 0 1 16)
        \<lparr>persist := None\<rparr>)
     = ((fx_tree (inline (MastNode [1, 3] [Some 3, None] [nil, nil, nil])) 2 0 1 16)\<lparr>persist := None\<rparr>,
        Err (Wrap ''flush'' NoPersistence))"
proof -
  let ?n = "MastNode [1, 3] [Some 3, None] [nil, nil, nil] :: (nat, nat) mastNode"
  let ?m = "fx_tree (inline ?n) 2 0 1 16"
  let ?g = "fx_tree (contentHash ''missing'') 2 0 1 16 :: (nat, nat) mast"
  have d: "\<exists>m'. Delete fx ?m 2 (Some 3) = Some (m', Err KeyNotPresent)"
    by (simp add: delete_defs fx_defs)
  then obtain m1 where d1: "Delete fx ?m 2 (Some 3) = Some (m1, Err KeyNotPresent)" ..
  from error_leaves_tree_before_save[of fx ?m 2 "Some 3"] d1 have "m1 = ?m" by auto
  with d1 have 1: "Delete fx ?m 2 (Some 3) = Some (?m, Err KeyNotPresent)" by simp
  have i: "\<exists>m'. Insert fx ?g 2 (Some 3)
      = Some (m', Err (FailedLoading ''missing'' (External ''not found'')))"
    by (simp add: Insert_def Insert_plan_def contentHash_Load_def fx_defs)
  then obtain m2 where
    i1: "Insert fx ?g 2 (Some 3) = Some (m2, Err (FailedLoading ''missing'' (External ''not found'')))" ..
  have np: "Insert_plan fx ?g 2 (Some 3) = Err (FailedLoading ''missing'' (External ''not found''))"
    by (simp add: Insert_plan_def contentHash_Load_def fx_defs)
  from error_leaves_tree_before_save[of fx ?g 2 "Some 3"] i1 np
  have "m2 = ?g" by auto
  with i1 have 2: "Insert fx ?g 2 (Some 3)
      = Some (?g, Err (FailedLoading ''missing'' (External ''not found'')))" by simp
  have 3: "MakeRoot fx (?m\<lparr>persist := None\<rparr>)
      = (?m\<lparr>persist := None\<rparr>, Err (Wrap ''flush'' NoPersistence))"
    by (simp add: MakeRoot_def flush_def fx_defs)
  from 1 2 3 show ?thesis by simp
qed

text \<open>
  The claim as stated fails on the tree of height 1 whose root holds the key 16
  and whose left child is not in the store: \<^verbatim>\<open>Delete\<close> returns the error of the
  shrinking, the root is the node without the entry and the size is 1 instead of 2.
\<close>

theorem Delete_error_changes_tree:
  "Delete fx (fx_tree (inline (MastNode [16] [Some 7] [contentHash ''missing'', nil])) 2 1 16 256)
       16 (Some 7)
     = Some (fx_tree (inline (MastNode [] [] [contentHash ''missing''])) 1 1 16 256,
             Err (Wrap ''shrink'' (FailedLoading ''missing'' (External ''not found''))))
   \<and> size_m (fx_tree (inline (MastNode [] [] [contentHash ''missing''])) 1 1 16 256)
     \<noteq> size_m (fx_tree (inline (MastNode [16] [Some 7] [contentHash ''missing'', nil])) 2 1 16 256)
   \<and> root (fx_tree (inline (MastNode [] [] [contentHash ''missing''])) 1 1 16 256 :: (nat, nat) mast)
     \<noteq> root (fx_tree (inline (MastNode [16] [Some 7] [contentHash ''missing'', nil])) 2 1 16 256)"
  apply (simp add: delete_defs fx_defs)
  apply (subst shrink_loop.simps)
  apply (simp add: contentHash_Load_def fx_defs)
  done

end
